theory Spec2Isabelle
  imports Complex_Main
begin

section \<open>The whiteboard editor\<close>

text \<open>
  A shallow embedding of the drawing engine of the repository: the component
  \<^verbatim>\<open>WhiteboardEditor\<close> and the types of \<^verbatim>\<open>types.ts\<close> it works on.

  Conventions of the embedding.
  \<^item> A JavaScript \<^verbatim>\<open>number\<close> that holds a coordinate, a zoom factor, a time in
    milliseconds or an opacity is a \<open>real\<close>: rounding, \<^verbatim>\<open>NaN\<close> and the infinities
    are not modelled. \<^verbatim>\<open>historyIndex\<close> only ever holds integers and is an \<open>int\<close>.
  \<^item> An optional field \<^verbatim>\<open>f?: T\<close> is an \<open>option\<close>; \<^verbatim>\<open>null\<close> state is \<open>None\<close>.
  \<^item> Arrays are lists. The copies \<^verbatim>\<open>[...xs]\<close> the code makes are the list itself:
    HOL values are never aliased.
  \<^item> The React state of the component is one record, \<open>editor\<close>. Every handler
    is a function from the state at the render that created it to the state after
    its updates have been applied.
  \<^item> What the environment supplies (\<^verbatim>\<open>crypto.randomUUID()\<close>, \<^verbatim>\<open>Date.now()\<close>,
    \<^verbatim>\<open>JSON.stringify\<close>, \<^verbatim>\<open>JSON.parse\<close>, the canvas element and its bounding
    rectangle) is a parameter of the function that uses it.
  \<^item> Calls on the 2D context are values of the type \<open>canvas_cmd\<close>; a function that
    paints returns the list of its calls, in order.
\<close>

subsection \<open>Data model (types.ts)\<close>

record point =
  px :: real
  py :: real

record dimensions =
  width :: real
  height :: real

datatype shape_type = Rectangle | RoundedRect | Circle | Triangle | Arrow | Line

datatype tool =
    Cursor | Pen | Highlighter | Spray | Calligraphy | Eraser | TextTool | Sticky
  | Fill | Hand | Delete | Laser | ShapeTool shape_type

text \<open>The string literal a value of the union \<^verbatim>\<open>ShapeType\<close> or \<^verbatim>\<open>Tool\<close> is at run time.\<close>

fun shape_name :: "shape_type \<Rightarrow> string" where
  "shape_name Rectangle = ''rectangle''"
| "shape_name RoundedRect = ''roundedRect''"
| "shape_name Circle = ''circle''"
| "shape_name Triangle = ''triangle''"
| "shape_name Arrow = ''arrow''"
| "shape_name Line = ''line''"

fun tool_name :: "tool \<Rightarrow> string" where
  "tool_name Cursor = ''cursor''"
| "tool_name Pen = ''pen''"
| "tool_name Highlighter = ''highlighter''"
| "tool_name Spray = ''spray''"
| "tool_name Calligraphy = ''calligraphy''"
| "tool_name Eraser = ''eraser''"
| "tool_name TextTool = ''text''"
| "tool_name Sticky = ''sticky''"
| "tool_name Fill = ''fill''"
| "tool_name Hand = ''hand''"
| "tool_name Delete = ''delete''"
| "tool_name Laser = ''laser''"
| "tool_name (ShapeTool k) = shape_name k"

record element_style =
  color :: string
  backgroundColor :: string
  fontSize :: "real option"
  fontFamily :: "string option"
  fontWeight :: "string option"
  fontStyle :: "string option"
  textDecoration :: "string option"
  textAlign :: "string option"
  strokeWidth :: "real option"
  opacity :: "real option"
  fill :: "bool option"

text \<open>
  \<^verbatim>\<open>WhiteboardElement\<close>. The field \<^verbatim>\<open>type\<close> is declared as a union of eight string
  literals, but \<^verbatim>\<open>handleMouseUp\<close> stores \<^verbatim>\<open>currentTool as any\<close> in it, so it is kept
  as the string it is at run time.
\<close>

record element =
  elem_id :: string
  elem_type :: string
  shapeType :: "shape_type option"
  position :: point
  elem_size :: dimensions
  content :: string
  style :: element_style
  rotation :: "real option"
  zIndex :: real
  timestamp :: "real option"

record whiteboard_content =
  wc_elements :: "element list"
  wc_canvasSize :: dimensions
  wc_zoom :: real
  wc_pan :: point

record whiteboard =
  wb_id :: string
  wb_name :: string
  wb_location :: string
  wb_template :: "string option"
  createdBy :: string
  createdAt :: real
  updatedAt :: real
  lastViewedAt :: real
  isFavorite :: bool
  wb_content :: whiteboard_content

subsection \<open>The state of the component\<close>

record editor =
  ctx :: bool
  isDrawing :: bool
  currentTool :: tool
  currentColor :: string
  currentSize :: real
  elements :: "element list"
  history :: "element list list"
  historyIndex :: int
  zoom :: real
  pan :: point
  isPanning :: bool
  lastPoint :: "point option"
  currentPath :: "point list"
  canvasSize :: dimensions

text \<open>
  The field \<open>ctx\<close> says whether the 2D context has been obtained (\<^verbatim>\<open>ctx !== null\<close>).
  The initial values are those of the \<^verbatim>\<open>useState\<close> calls.
\<close>

definition init_editor :: "whiteboard \<Rightarrow> editor" where
  "init_editor wb =
     \<lparr> ctx = False, isDrawing = False, currentTool = Pen,
       currentColor = ''#000000'', currentSize = 3,
       elements = wc_elements (wb_content wb),
       history = [wc_elements (wb_content wb)],
       historyIndex = 0,
       zoom = wc_zoom (wb_content wb),
       pan = wc_pan (wb_content wb),
       isPanning = False, lastPoint = None, currentPath = [],
       canvasSize = \<lparr> width = 0, height = 0 \<rparr> \<rparr>"

subsection \<open>Arrays\<close>

text \<open>
  \<^verbatim>\<open>xs.slice(start, end)\<close> of ECMAScript on integer arguments: a negative bound
  counts from the end, and both bounds are clamped to the array.
\<close>

definition slice :: "'a list \<Rightarrow> int \<Rightarrow> int \<Rightarrow> 'a list" where
  "slice xs start end' =
     (let len = int (length xs);
          k = (if start < 0 then max (len + start) 0 else min start len);
          final = (if end' < 0 then max (len + end') 0 else min end' len)
      in take (nat (final - k)) (drop (nat k) xs))"

text \<open>\<^verbatim>\<open>xs[i]\<close>: \<^verbatim>\<open>undefined\<close> (here \<open>None\<close>) outside the array.\<close>

definition index :: "'a list \<Rightarrow> int \<Rightarrow> 'a option" where
  "index xs i = (if 0 \<le> i \<and> i < int (length xs) then Some (xs ! nat i) else None)"

datatype js_error = TypeError

subsection \<open>History\<close>

definition addToHistory :: "element list \<Rightarrow> editor \<Rightarrow> editor" where
  "addToHistory newElements s =
     (let newHistory = slice (history s) 0 (historyIndex s + 1) @ [newElements]
      in s\<lparr> history := newHistory, historyIndex := int (length newHistory) - 1 \<rparr>)"

text \<open>
  \<^verbatim>\<open>undo\<close> and \<open>redo\<close> spread \<^verbatim>\<open>history[historyIndex \<plusminus> 1]\<close>; spreading
  \<^verbatim>\<open>undefined\<close> throws a \<^verbatim>\<open>TypeError\<close>, which is the result \<open>Inl TypeError\<close>.
\<close>

definition undo :: "editor \<Rightarrow> js_error + editor" where
  "undo s =
     (if historyIndex s > 0 then
        (case index (history s) (historyIndex s - 1) of
           None \<Rightarrow> Inl TypeError
         | Some snapshot \<Rightarrow>
             Inr (s\<lparr> historyIndex := historyIndex s - 1, elements := snapshot \<rparr>))
      else Inr s)"

definition redo :: "editor \<Rightarrow> js_error + editor" where
  "redo s =
     (if historyIndex s < int (length (history s)) - 1 then
        (case index (history s) (historyIndex s + 1) of
           None \<Rightarrow> Inl TypeError
         | Some snapshot \<Rightarrow>
             Inr (s\<lparr> historyIndex := historyIndex s + 1, elements := snapshot \<rparr>))
      else Inr s)"

definition clearCanvas :: "editor \<Rightarrow> editor" where
  "clearCanvas s = addToHistory [] (s\<lparr> elements := [] \<rparr>)"

subsection \<open>Calls on the 2D context\<close>

datatype canvas_cmd =
    ClearRect real real real real
  | FillRect real real real real
  | StrokeRect real real real real
  | SetFillStyle string
  | SetStrokeStyle string
  | SetLineWidth real
  | SetGlobalAlpha real
  | SetFont real string
  | Save
  | Restore
  | Scale real real
  | Translate real real
  | BeginPath
  | ClosePath
  | MoveTo real real
  | LineTo real real
  | QuadraticCurveTo real real real real
  | Arc real real real real real
  | Rect real real real real
  | FillCmd
  | Stroke
  | FillText string real real

text \<open>
  \<open>SetFont n f\<close> is the assignment of the template string \<^verbatim>\<open>`${n}px ${f}`\<close> to
  \<^verbatim>\<open>context.font\<close>, \<open>FillCmd\<close> the call \<^verbatim>\<open>context.fill()\<close>.

  \<^verbatim>\<open>v || d\<close> on an optional number and on an optional string: \<^verbatim>\<open>undefined\<close>, \<open>0\<close>
  and the empty string are falsy.
\<close>

definition num_or :: "real option \<Rightarrow> real \<Rightarrow> real" where
  "num_or v d = (case v of None \<Rightarrow> d | Some r \<Rightarrow> if r = 0 then d else r)"

definition str_or :: "string option \<Rightarrow> string \<Rightarrow> string" where
  "str_or v d = (case v of None \<Rightarrow> d | Some t \<Rightarrow> if t = [] then d else t)"

text \<open>\<^verbatim>\<open>str.split(c)\<close> with a one-character separator.\<close>

fun split :: "char \<Rightarrow> string \<Rightarrow> string list" where
  "split c [] = [[]]"
| "split c (a # as) =
     (if a = c then [] # split c as
      else (case split c as of [] \<Rightarrow> [[a]] | l # ls \<Rightarrow> (a # l) # ls))"

text \<open>\<^verbatim>\<open>Math.atan2(y, x)\<close> on reals.\<close>

definition atan2 :: "real \<Rightarrow> real \<Rightarrow> real" where
  "atan2 b a =
     (if a > 0 then arctan (b / a)
      else if a < 0 then (if b \<ge> 0 then arctan (b / a) + pi else arctan (b / a) - pi)
      else if b > 0 then pi / 2 else if b < 0 then - (pi / 2) else 0)"

subsection \<open>Renderer\<close>

text \<open>
  \<open>parse\<close> is \<^verbatim>\<open>JSON.parse\<close> as far as \<^verbatim>\<open>drawPath\<close> uses its result: \<open>Some ps\<close>
  when the text is the JSON of an array of points, \<open>None\<close> for every other text
  (the call throws, or yields a value that is not such an array); the model does not
  follow the painting in that case and \<open>drawPath\<close> is \<open>None\<close>.
\<close>

definition drawPath :: "(string \<Rightarrow> point list option) \<Rightarrow> element \<Rightarrow> canvas_cmd list option" where
  "drawPath parse el =
     (if content el = [] then Some []
      else case parse (content el) of
             None \<Rightarrow> None
           | Some points \<Rightarrow>
               if length points < 2 then Some []
               else Some ([BeginPath, MoveTo (px (hd points)) (py (hd points))]
                          @ map (\<lambda>p. LineTo (px p) (py p)) (tl points)
                          @ [Stroke]))"

definition drawText :: "element \<Rightarrow> canvas_cmd list" where
  "drawText el =
     [SetFont (num_or (fontSize (style el)) 16) (str_or (fontFamily (style el)) ''Arial''),
      SetFillStyle (color (style el)),
      FillText (content el) (px (position el)) (py (position el))]"

definition drawSticky :: "element \<Rightarrow> canvas_cmd list" where
  "drawSticky el =
     (let x = px (position el); y = py (position el);
          w = width (elem_size el); h = height (elem_size el);
          lines = split (CHR 0x0A) (content el)
      in [SetFillStyle (backgroundColor (style el)),
          FillRect x y w h,
          SetStrokeStyle (color (style el)),
          StrokeRect x y w h,
          SetFillStyle (color (style el)),
          SetFont (num_or (fontSize (style el)) 14) ''Arial'']
         @ map (\<lambda>(i, line). FillText line (x + 10) (y + 20 + real i * 20))
             (enumerate 0 lines))"

definition roundRect :: "real \<Rightarrow> real \<Rightarrow> real \<Rightarrow> real \<Rightarrow> real \<Rightarrow> canvas_cmd list" where
  "roundRect x y w h radius =
     [MoveTo (x + radius) y,
      LineTo (x + w - radius) y,
      QuadraticCurveTo (x + w) y (x + w) (y + radius),
      LineTo (x + w) (y + h - radius),
      QuadraticCurveTo (x + w) (y + h) (x + w - radius) (y + h),
      LineTo (x + radius) (y + h),
      QuadraticCurveTo x (y + h) x (y + h - radius),
      LineTo x (y + radius),
      QuadraticCurveTo x y (x + radius) y]"

definition drawArrow :: "real \<Rightarrow> real \<Rightarrow> real \<Rightarrow> real \<Rightarrow> canvas_cmd list" where
  "drawArrow x1 y1 x2 y2 =
     (let headLength = 20; angle = atan2 (y2 - y1) (x2 - x1)
      in [MoveTo x1 y1,
          LineTo x2 y2,
          LineTo (x2 - headLength * cos (angle - pi / 6)) (y2 - headLength * sin (angle - pi / 6)),
          MoveTo x2 y2,
          LineTo (x2 - headLength * cos (angle + pi / 6)) (y2 - headLength * sin (angle + pi / 6))])"

definition drawShape :: "element \<Rightarrow> canvas_cmd list" where
  "drawShape el =
     (let x = px (position el); y = py (position el);
          w = width (elem_size el); h = height (elem_size el)
      in [BeginPath]
         @ (case shapeType el of
              None \<Rightarrow> []
            | Some Rectangle \<Rightarrow> [Rect x y w h]
            | Some RoundedRect \<Rightarrow> roundRect x y w h 10
            | Some Circle \<Rightarrow> [Arc (x + w / 2) (y + h / 2) (min w h / 2) 0 (2 * pi)]
            | Some Triangle \<Rightarrow>
                [MoveTo (x + w / 2) y, LineTo x (y + h), LineTo (x + w) (y + h), ClosePath]
            | Some Arrow \<Rightarrow> drawArrow x y (x + w) (y + h)
            | Some Line \<Rightarrow> [MoveTo x y, LineTo (x + w) (y + h)])
         @ (if fill (style el) = Some True then [FillCmd] else [])
         @ [Stroke])"

text \<open>\<open>now\<close> is the value \<^verbatim>\<open>Date.now()\<close> returns in the call.\<close>

definition drawLaser :: "real \<Rightarrow> element \<Rightarrow> canvas_cmd list" where
  "drawLaser now el =
     (let age = now - num_or (timestamp el) now;
          maxAge = 3000
      in if age > maxAge then []
         else (let opacity = max 0 (1 - age / maxAge)
               in [SetGlobalAlpha opacity,
                   SetFillStyle ''#ff0000'',
                   BeginPath,
                   Arc (px (position el)) (py (position el)) 8 0 (2 * pi),
                   FillCmd]))"

definition drawElement ::
  "(string \<Rightarrow> point list option) \<Rightarrow> real \<Rightarrow> element \<Rightarrow> canvas_cmd list option" where
  "drawElement parse now el =
     (let body =
        (if elem_type el \<in> {''pen'', ''highlighter'', ''spray'', ''calligraphy''}
           then drawPath parse el
         else if elem_type el = ''text'' then Some (drawText el)
         else if elem_type el = ''sticky'' then Some (drawSticky el)
         else if elem_type el = ''shape'' then Some (drawShape el)
         else if elem_type el = ''laser'' then Some (drawLaser now el)
         else Some [])
      in case body of
           None \<Rightarrow> None
         | Some cmds \<Rightarrow>
             Some ([Save,
                    SetStrokeStyle (color (style el)),
                    SetFillStyle (backgroundColor (style el)),
                    SetLineWidth (num_or (strokeWidth (style el)) 2),
                    SetGlobalAlpha (num_or (opacity (style el)) 1)]
                   @ cmds @ [Restore]))"

text \<open>
  \<^verbatim>\<open>redrawCanvas\<close> on a context that exists. The calls up to the first element are
  \<open>redrawCanvas_prologue\<close>; one clock reading serves all elements of a repaint.
\<close>

definition redrawCanvas_prologue :: "editor \<Rightarrow> canvas_cmd list" where
  "redrawCanvas_prologue s =
     [ClearRect 0 0 (width (canvasSize s)) (height (canvasSize s)),
      SetFillStyle ''#ffffff'',
      FillRect 0 0 (width (canvasSize s)) (height (canvasSize s)),
      Save,
      Scale (zoom s) (zoom s),
      Translate (px (pan s)) (py (pan s))]"

definition redrawCanvas ::
  "(string \<Rightarrow> point list option) \<Rightarrow> real \<Rightarrow> editor \<Rightarrow> canvas_cmd list option" where
  "redrawCanvas parse now s =
     (case those (map (drawElement parse now) (elements s)) of
        None \<Rightarrow> None
      | Some drawn \<Rightarrow> Some (redrawCanvas_prologue s @ concat drawn @ [Restore]))"

subsection \<open>The current transformation matrix\<close>

text \<open>
  The canvas maps a point \<open>(x, y)\<close> given to a path call to the pixel
  \<open>(m_a * x + m_e, m_d * y + m_f)\<close> of the backing store (no call of the component
  rotates or skews). \<^verbatim>\<open>scale\<close> and \<^verbatim>\<open>translate\<close> multiply the matrix on the right:
  the call made last is applied to the point first.
\<close>

record ctm =
  m_a :: real
  m_d :: real
  m_e :: real
  m_f :: real

definition ctm_identity :: ctm where
  "ctm_identity = \<lparr> m_a = 1, m_d = 1, m_e = 0, m_f = 0 \<rparr>"

fun ctm_step :: "ctm \<Rightarrow> canvas_cmd \<Rightarrow> ctm" where
  "ctm_step m (Scale a d) = m\<lparr> m_a := m_a m * a, m_d := m_d m * d \<rparr>"
| "ctm_step m (Translate u v) = m\<lparr> m_e := m_a m * u + m_e m, m_f := m_d m * v + m_f m \<rparr>"
| "ctm_step m _ = m"

definition ctm_apply :: "ctm \<Rightarrow> point \<Rightarrow> point" where
  "ctm_apply m p = \<lparr> px = m_a m * px p + m_e m, py = m_d m * py p + m_f m \<rparr>"

text \<open>Where the renderer paints a document point: the pixel of the backing store.\<close>

definition docToCanvas :: "editor \<Rightarrow> point \<Rightarrow> point" where
  "docToCanvas s p = ctm_apply (foldl ctm_step ctm_identity (redrawCanvas_prologue s)) p"

subsection \<open>Pointer input\<close>

record dom_rect =
  rect_left :: real
  rect_top :: real
  rect_width :: real
  rect_height :: real

text \<open>
  The canvas element: the size of its backing store and the result of
  \<^verbatim>\<open>getBoundingClientRect()\<close>. \<open>None\<close> is \<^verbatim>\<open>canvasRef.current === null\<close>.
\<close>

record canvas =
  canvas_width :: real
  canvas_height :: real
  boundingClientRect :: dom_rect

record mouse_event =
  clientX :: real
  clientY :: real

definition getMousePos :: "canvas option \<Rightarrow> mouse_event \<Rightarrow> editor \<Rightarrow> point" where
  "getMousePos cv e s =
     (case cv of
        None \<Rightarrow> \<lparr> px = 0, py = 0 \<rparr>
      | Some c \<Rightarrow>
          (let rect = boundingClientRect c;
               scaleX = canvas_width c / rect_width rect;
               scaleY = canvas_height c / rect_height rect
           in \<lparr> px = ((clientX e - rect_left rect) * scaleX - px (pan s)) / zoom s,
                py = ((clientY e - rect_top rect) * scaleY - py (pan s)) / zoom s \<rparr>))"

text \<open>The pixel of the backing store under the pointer, and the way back.\<close>

definition clientToCanvas :: "canvas \<Rightarrow> mouse_event \<Rightarrow> point" where
  "clientToCanvas c e =
     \<lparr> px = (clientX e - rect_left (boundingClientRect c))
             * (canvas_width c / rect_width (boundingClientRect c)),
       py = (clientY e - rect_top (boundingClientRect c))
             * (canvas_height c / rect_height (boundingClientRect c)) \<rparr>"

definition canvasToClient :: "canvas \<Rightarrow> point \<Rightarrow> mouse_event" where
  "canvasToClient c p =
     \<lparr> clientX = px p / (canvas_width c / rect_width (boundingClientRect c))
                  + rect_left (boundingClientRect c),
       clientY = py p / (canvas_height c / rect_height (boundingClientRect c))
                  + rect_top (boundingClientRect c) \<rparr>"

definition is_freehand :: "tool \<Rightarrow> bool" where
  "is_freehand t \<longleftrightarrow> t = Pen \<or> t = Highlighter \<or> t = Spray \<or> t = Calligraphy"

definition handleMouseDown :: "canvas option \<Rightarrow> mouse_event \<Rightarrow> editor \<Rightarrow> editor" where
  "handleMouseDown cv e s =
     (let pos = getMousePos cv e s;
          s1 = s\<lparr> lastPoint := Some pos \<rparr>
      in if currentTool s = Hand then s1\<lparr> isPanning := True \<rparr>
         else s1\<lparr> isDrawing := True, currentPath := [pos] \<rparr>)"

text \<open>
  \<^verbatim>\<open>handleMouseMove\<close> returns the new state and the calls of the live preview.
  With \<^verbatim>\<open>lastPoint === null\<close> neither guard lets the handler go on.
\<close>

definition handleMouseMove ::
  "canvas option \<Rightarrow> mouse_event \<Rightarrow> editor \<Rightarrow> editor \<times> canvas_cmd list" where
  "handleMouseMove cv e s =
     (let pos = getMousePos cv e s
      in case lastPoint s of
           None \<Rightarrow> (s, [])
         | Some lp \<Rightarrow>
             if isPanning s then
               (let deltaX = (px pos - px lp) * zoom s;
                    deltaY = (py pos - py lp) * zoom s
                in (s\<lparr> pan := \<lparr> px = px (pan s) + deltaX, py = py (pan s) + deltaY \<rparr> \<rparr>, []))
             else if \<not> isDrawing s then (s, [])
             else if is_freehand (currentTool s) then
               (s\<lparr> currentPath := currentPath s @ [pos], lastPoint := Some pos \<rparr>,
                if ctx s then
                  [Save,
                   Scale (zoom s) (zoom s),
                   Translate (px (pan s)) (py (pan s)),
                   SetStrokeStyle (currentColor s),
                   SetLineWidth (currentSize s),
                   SetGlobalAlpha (if currentTool s = Highlighter then 0.5 else 1),
                   BeginPath,
                   MoveTo (px lp) (py lp),
                   LineTo (px pos) (py pos),
                   Stroke,
                   Restore]
                else [])
             else (s\<lparr> lastPoint := Some pos \<rparr>, []))"

text \<open>
  \<open>uuid\<close> is the value of \<^verbatim>\<open>crypto.randomUUID()\<close> and \<open>stringify\<close> is
  \<^verbatim>\<open>JSON.stringify\<close> on arrays of points.
\<close>

definition newElement :: "(point list \<Rightarrow> string) \<Rightarrow> string \<Rightarrow> editor \<Rightarrow> element" where
  "newElement stringify uuid s =
     \<lparr> elem_id = uuid,
       elem_type = tool_name (currentTool s),
       shapeType = None,
       position = hd (currentPath s),
       elem_size = \<lparr> width = 0, height = 0 \<rparr>,
       content = stringify (currentPath s),
       style = \<lparr> color = currentColor s,
                 backgroundColor = ''transparent'',
                 fontSize = None, fontFamily = None, fontWeight = None,
                 fontStyle = None, textDecoration = None, textAlign = None,
                 strokeWidth = Some (currentSize s),
                 opacity = Some (if currentTool s = Highlighter then 0.5 else 1),
                 fill = None \<rparr>,
       rotation = None,
       zIndex = real (length (elements s)),
       timestamp = None \<rparr>"

definition handleMouseUp :: "(point list \<Rightarrow> string) \<Rightarrow> string \<Rightarrow> editor \<Rightarrow> editor" where
  "handleMouseUp stringify uuid s =
     (if isPanning s then s\<lparr> isPanning := False, lastPoint := None \<rparr>
      else if \<not> isDrawing s then s
      else
        (let s1 =
           (if length (currentPath s) > 1 then
              (let newElements = elements s @ [newElement stringify uuid s]
               in addToHistory newElements (s\<lparr> elements := newElements \<rparr>))
            else s)
         in s1\<lparr> isDrawing := False, currentPath := [], lastPoint := None \<rparr>))"

subsection \<open>Saving and the view controls\<close>

text \<open>
  \<^verbatim>\<open>handleSave\<close>: the value handed to \<^verbatim>\<open>onSave\<close>; \<open>now\<close> is \<^verbatim>\<open>new Date()\<close>.
\<close>

definition handleSave :: "whiteboard \<Rightarrow> real \<Rightarrow> editor \<Rightarrow> whiteboard" where
  "handleSave wb now s =
     wb\<lparr> wb_content :=
           (wb_content wb)\<lparr> wc_elements := elements s,
                            wc_zoom := zoom s,
                            wc_pan := pan s,
                            wc_canvasSize := canvasSize s \<rparr>,
         updatedAt := now \<rparr>"

definition setCurrentTool :: "tool \<Rightarrow> editor \<Rightarrow> editor" where
  "setCurrentTool t s = s\<lparr> currentTool := t \<rparr>"

definition zoomOut :: "editor \<Rightarrow> editor" where
  "zoomOut s = s\<lparr> zoom := max 0.1 (zoom s - 0.1) \<rparr>"

definition zoomIn :: "editor \<Rightarrow> editor" where
  "zoomIn s = s\<lparr> zoom := min 3 (zoom s + 0.1) \<rparr>"

definition resetView :: "editor \<Rightarrow> editor" where
  "resetView s = s\<lparr> zoom := 1, pan := \<lparr> px = 0, py = 0 \<rparr> \<rparr>"

subsection \<open>Sequences of operations\<close>

text \<open>
  The history operations as a datatype, and a run of them from a state. A run stops at
  the first operation that throws.
\<close>

datatype history_op = AddToHistory "element list" | Undo | Redo

fun apply_op :: "history_op \<Rightarrow> editor \<Rightarrow> js_error + editor" where
  "apply_op (AddToHistory es) s = Inr (addToHistory es s)"
| "apply_op Undo s = undo s"
| "apply_op Redo s = redo s"

fun run_ops :: "history_op list \<Rightarrow> editor \<Rightarrow> js_error + editor" where
  "run_ops [] s = Inr s"
| "run_ops (op # ops) s = (case apply_op op s of Inl e \<Rightarrow> Inl e | Inr s' \<Rightarrow> run_ops ops s')"

fun undos :: "nat \<Rightarrow> editor \<Rightarrow> js_error + editor" where
  "undos 0 s = Inr s"
| "undos (Suc n) s = (case undo s of Inl e \<Rightarrow> Inl e | Inr s' \<Rightarrow> undos n s')"

definition hist_inv :: "editor \<Rightarrow> bool" where
  "hist_inv s \<longleftrightarrow> 0 \<le> historyIndex s \<and> historyIndex s < int (length (history s))"

text \<open>
  A gesture is a pointer-down, any number of pointer-moves and a pointer-up. The canvas
  binds \<^verbatim>\<open>handleMouseUp\<close> to both \<^verbatim>\<open>onMouseUp\<close> and \<^verbatim>\<open>onMouseLeave\<close>, so the last
  event stands for either.
\<close>

fun handleMouseMoves ::
  "canvas option \<Rightarrow> mouse_event list \<Rightarrow> editor \<Rightarrow> editor \<times> canvas_cmd list" where
  "handleMouseMoves cv [] s = (s, [])"
| "handleMouseMoves cv (e # es) s =
     (let (s1, drawn1) = handleMouseMove cv e s;
          (s2, drawn2) = handleMouseMoves cv es s1
      in (s2, drawn1 @ drawn2))"

definition gesture ::
  "canvas option \<Rightarrow> (point list \<Rightarrow> string) \<Rightarrow> string \<Rightarrow> mouse_event \<Rightarrow> mouse_event list
     \<Rightarrow> editor \<Rightarrow> editor" where
  "gesture cv stringify uuid down moves s =
     handleMouseUp stringify uuid (fst (handleMouseMoves cv moves (handleMouseDown cv down s)))"

text \<open>The document points of the events of a gesture that starts in \<open>s\<close>.\<close>

definition recorded ::
  "canvas option \<Rightarrow> mouse_event \<Rightarrow> mouse_event list \<Rightarrow> editor \<Rightarrow> point list" where
  "recorded cv down moves s = map (\<lambda>e. getMousePos cv e s) (down # moves)"

text \<open>The calls of one segment of the live preview, from \<open>a\<close> to \<open>b\<close>.\<close>

definition previewSegment :: "editor \<Rightarrow> point \<Rightarrow> point \<Rightarrow> canvas_cmd list" where
  "previewSegment s a b =
     (if ctx s then
        [Save, Scale (zoom s) (zoom s), Translate (px (pan s)) (py (pan s)),
         SetStrokeStyle (currentColor s), SetLineWidth (currentSize s),
         SetGlobalAlpha (if currentTool s = Highlighter then 0.5 else 1),
         BeginPath, MoveTo (px a) (py a), LineTo (px b) (py b), Stroke, Restore]
      else [])"

subsection \<open>Sample values\<close>

definition origin :: point where
  "origin = \<lparr> px = 0, py = 0 \<rparr>"

definition plain_style :: element_style where
  "plain_style =
     \<lparr> color = ''#000000'', backgroundColor = ''#ffff88'',
       fontSize = None, fontFamily = None, fontWeight = None, fontStyle = None,
       textDecoration = None, textAlign = None, strokeWidth = None, opacity = None,
       fill = None \<rparr>"

text \<open>A laser mark at \<open>(5, 5)\<close> and a sticky note that covers \<open>[0, 100] \<times> [0, 100]\<close>.\<close>

definition laser_mark :: "real option \<Rightarrow> element" where
  "laser_mark t =
     \<lparr> elem_id = ''laser-1'', elem_type = ''laser'', shapeType = None,
       position = \<lparr> px = 5, py = 5 \<rparr>, elem_size = \<lparr> width = 0, height = 0 \<rparr>,
       content = [], style = plain_style, rotation = None, zIndex = 0, timestamp = t \<rparr>"

definition sticky_note :: element where
  "sticky_note =
     \<lparr> elem_id = ''sticky-1'', elem_type = ''sticky'', shapeType = None,
       position = origin, elem_size = \<lparr> width = 100, height = 100 \<rparr>,
       content = ''note'', style = plain_style, rotation = None, zIndex = 0,
       timestamp = None \<rparr>"

text \<open>A stored whiteboard with the given elements, zoom and pan.\<close>

definition board :: "element list \<Rightarrow> real \<Rightarrow> point \<Rightarrow> whiteboard" where
  "board es z p =
     \<lparr> wb_id = ''wb-1'', wb_name = ''Board'', wb_location = ''local'', wb_template = None,
       createdBy = ''user'', createdAt = 0, updatedAt = 0, lastViewedAt = 0,
       isFavorite = False,
       wb_content = \<lparr> wc_elements = es, wc_canvasSize = \<lparr> width = 800, height = 600 \<rparr>,
                      wc_zoom = z, wc_pan = p \<rparr> \<rparr>"

text \<open>A canvas of 800 by 600 pixels displayed at that size at the origin of the page.\<close>

definition full_canvas :: canvas where
  "full_canvas =
     \<lparr> canvas_width = 800, canvas_height = 600,
       boundingClientRect =
         \<lparr> rect_left = 0, rect_top = 0, rect_width = 800, rect_height = 600 \<rparr> \<rparr>"

definition pointer_at :: "real \<Rightarrow> real \<Rightarrow> mouse_event" where
  "pointer_at a b = \<lparr> clientX = a, clientY = b \<rparr>"

section \<open>Properties\<close>

subsection \<open>History: auxiliary facts\<close>

lemma slice_prefix: "0 \<le> e \<Longrightarrow> slice xs 0 e = take (nat e) xs"
  by (simp add: slice_def Let_def min_def)

lemma addToHistory_history:
  "0 \<le> historyIndex s \<Longrightarrow>
   history (addToHistory es s) = take (nat (historyIndex s) + 1) (history s) @ [es]"
  by (simp add: addToHistory_def Let_def slice_prefix nat_add_distrib)

lemma addToHistory_index:
  "historyIndex (addToHistory es s) = int (length (history (addToHistory es s))) - 1"
  by (simp add: addToHistory_def Let_def)

lemma hist_inv_addToHistory: "hist_inv (addToHistory es s)"
  by (simp add: hist_inv_def addToHistory_def Let_def)

lemma undo_inv: "hist_inv s \<Longrightarrow> \<exists>t. undo s = Inr t \<and> hist_inv t \<and> history t = history s
   \<and> historyIndex t = max 0 (historyIndex s - 1)"
  by (auto simp: hist_inv_def undo_def index_def)

lemma redo_inv: "hist_inv s \<Longrightarrow> \<exists>t. redo s = Inr t \<and> hist_inv t \<and> history t = history s"
  by (auto simp: hist_inv_def redo_def index_def)

lemma apply_op_inv: "hist_inv s \<Longrightarrow> \<exists>t. apply_op op s = Inr t \<and> hist_inv t"
  using undo_inv redo_inv hist_inv_addToHistory by (cases op) fastforce+

lemma run_ops_inv: "hist_inv s \<Longrightarrow> \<exists>t. run_ops ops s = Inr t \<and> hist_inv t"
proof (induction ops arbitrary: s)
  case Nil
  then show ?case by simp
next
  case (Cons op ops)
  from apply_op_inv [OF Cons.prems] obtain s' where s': "apply_op op s = Inr s'" "hist_inv s'"
    by blast
  from Cons.IH [OF s'(2)] s'(1) show ?case by simp
qed

lemma hist_inv_init: "hist_inv (init_editor wb)"
  by (simp add: hist_inv_def init_editor_def)

lemma undo_at_start: "historyIndex s = 0 \<Longrightarrow> undo s = Inr s"
  by (simp add: undo_def)

lemma redo_at_end: "historyIndex s = int (length (history s)) - 1 \<Longrightarrow> redo s = Inr s"
  by (simp add: redo_def)

lemma undos_inv: "hist_inv s \<Longrightarrow> \<exists>t. undos n s = Inr t \<and> hist_inv t \<and> history t = history s
   \<and> historyIndex t = max 0 (historyIndex s - int n)"
proof (induction n arbitrary: s)
  case 0
  then show ?case by (simp add: hist_inv_def)
next
  case (Suc n)
  from undo_inv [OF Suc.prems] obtain s' where s': "undo s = Inr s'" "hist_inv s'"
    "history s' = history s" "historyIndex s' = max 0 (historyIndex s - 1)" by blast
  from Suc.IH [OF s'(2)] obtain t where t: "undos n s' = Inr t" "hist_inv t"
    "history t = history s'" "historyIndex t = max 0 (historyIndex s' - int n)" by blast
  have "max 0 (max 0 (historyIndex s - 1) - int n) = max 0 (historyIndex s - int (Suc n))"
    by simp
  with s' t show ?case by simp
qed

lemma addToHistory_elements: "elements (addToHistory es s) = elements s"
  by (simp add: addToHistory_def Let_def)

subsection \<open>Gestures: auxiliary facts\<close>

lemma getMousePos_view:
  "pan t = pan s \<Longrightarrow> zoom t = zoom s \<Longrightarrow> getMousePos cv e t = getMousePos cv e s"
  by (cases cv) (simp_all add: getMousePos_def)

lemma panning_moves:
  "isPanning t \<Longrightarrow> lastPoint t = Some lp \<Longrightarrow>
   \<exists>p. handleMouseMoves cv mvs t = (t\<lparr> pan := p \<rparr>, [])"
proof (induction mvs arbitrary: t)
  case Nil
  have "t = t\<lparr> pan := pan t \<rparr>" by simp
  then show ?case by (metis handleMouseMoves.simps(1))
next
  case (Cons e es)
  obtain p1 where p1: "handleMouseMove cv e t = (t\<lparr> pan := p1 \<rparr>, [])"
    using Cons.prems by (simp add: handleMouseMove_def Let_def)
  have "isPanning (t\<lparr> pan := p1 \<rparr>)" "lastPoint (t\<lparr> pan := p1 \<rparr>) = Some lp"
    using Cons.prems by simp_all
  from Cons.IH [OF this] obtain p where
    "handleMouseMoves cv es (t\<lparr> pan := p1 \<rparr>) = (t\<lparr> pan := p1 \<rparr>\<lparr> pan := p \<rparr>, [])" by blast
  with p1 show ?case by auto
qed

lemma other_tool_moves:
  "\<not> isPanning t \<Longrightarrow> \<not> is_freehand (currentTool t) \<Longrightarrow>
   \<exists>l. handleMouseMoves cv mvs t = (t\<lparr> lastPoint := l \<rparr>, [])"
proof (induction mvs arbitrary: t)
  case Nil
  have "t = t\<lparr> lastPoint := lastPoint t \<rparr>" by simp
  then show ?case by (metis handleMouseMoves.simps(1))
next
  case (Cons e es)
  obtain l1 where l1: "handleMouseMove cv e t = (t\<lparr> lastPoint := l1 \<rparr>, [])"
  proof (cases "lastPoint t")
    case None
    then have "handleMouseMove cv e t = (t\<lparr> lastPoint := None \<rparr>, [])"
      by (simp add: handleMouseMove_def)
    then show ?thesis using that by blast
  next
    case (Some lp)
    show ?thesis
    proof (cases "isDrawing t")
      case True
      with Some Cons.prems show ?thesis using that
        by (simp add: handleMouseMove_def Let_def)
    next
      case False
      with Some Cons.prems have "handleMouseMove cv e t = (t\<lparr> lastPoint := Some lp \<rparr>, [])"
        by (simp add: handleMouseMove_def Let_def)
      then show ?thesis using that by blast
    qed
  qed
  have "\<not> isPanning (t\<lparr> lastPoint := l1 \<rparr>)" "\<not> is_freehand (currentTool (t\<lparr> lastPoint := l1 \<rparr>))"
    using Cons.prems by simp_all
  from Cons.IH [OF this] obtain l where
    "handleMouseMoves cv es (t\<lparr> lastPoint := l1 \<rparr>) = (t\<lparr> lastPoint := l1 \<rparr>\<lparr> lastPoint := l \<rparr>, [])"
    by blast
  with l1 show ?case by auto
qed

lemma freehand_move:
  "\<not> isPanning t \<Longrightarrow> isDrawing t \<Longrightarrow> is_freehand (currentTool t) \<Longrightarrow> lastPoint t = Some lp \<Longrightarrow>
   handleMouseMove cv e t =
     (t\<lparr> currentPath := currentPath t @ [getMousePos cv e t],
         lastPoint := Some (getMousePos cv e t) \<rparr>,
      previewSegment t lp (getMousePos cv e t))"
  by (simp add: handleMouseMove_def Let_def previewSegment_def)

lemma freehand_moves:
  "\<not> isPanning t \<Longrightarrow> isDrawing t \<Longrightarrow> is_freehand (currentTool t) \<Longrightarrow> lastPoint t = Some lp \<Longrightarrow>
   fst (handleMouseMoves cv mvs t) =
     t\<lparr> currentPath := currentPath t @ map (\<lambda>e. getMousePos cv e t) mvs,
        lastPoint := Some (last (lp # map (\<lambda>e. getMousePos cv e t) mvs)) \<rparr>"
proof (induction mvs arbitrary: t lp)
  case Nil
  then show ?case by simp
next
  case (Cons e es)
  let ?p = "getMousePos cv e t"
  let ?t1 = "t\<lparr> currentPath := currentPath t @ [?p], lastPoint := Some ?p \<rparr>"
  have step: "handleMouseMove cv e t = (?t1, previewSegment t lp ?p)"
    using Cons.prems by (rule freehand_move)
  have pos: "\<And>e'. getMousePos cv e' ?t1 = getMousePos cv e' t"
    by (rule getMousePos_view) simp_all
  have "fst (handleMouseMoves cv es ?t1) =
     ?t1\<lparr> currentPath := currentPath ?t1 @ map (\<lambda>e. getMousePos cv e ?t1) es,
          lastPoint := Some (last (?p # map (\<lambda>e. getMousePos cv e ?t1) es)) \<rparr>"
    using Cons.prems by (intro Cons.IH) simp_all
  then show ?case using step pos by (simp add: split_beta)
qed

lemma handleMouseDown_drawing:
  "currentTool s \<noteq> Hand \<Longrightarrow>
   handleMouseDown cv e s =
     s\<lparr> lastPoint := Some (getMousePos cv e s), isDrawing := True,
        currentPath := [getMousePos cv e s] \<rparr>"
  by (simp add: handleMouseDown_def Let_def)

lemma handleMouseDown_hand:
  "currentTool s = Hand \<Longrightarrow>
   handleMouseDown cv e s = s\<lparr> lastPoint := Some (getMousePos cv e s), isPanning := True \<rparr>"
  by (simp add: handleMouseDown_def Let_def)

lemma freehand_not_hand: "is_freehand t \<Longrightarrow> t \<noteq> Hand"
  by (auto simp: is_freehand_def)

lemma freehand_gesture_state:
  assumes "is_freehand (currentTool s)" and "\<not> isPanning s"
  shows "fst (handleMouseMoves cv mvs (handleMouseDown cv down s)) =
     s\<lparr> lastPoint := Some (last (recorded cv down mvs s)), isDrawing := True,
        currentPath := recorded cv down mvs s \<rparr>"
proof -
  let ?d = "handleMouseDown cv down s"
  have d: "?d = s\<lparr> lastPoint := Some (getMousePos cv down s), isDrawing := True,
        currentPath := [getMousePos cv down s] \<rparr>"
    using assms(1) by (simp add: handleMouseDown_drawing freehand_not_hand)
  have pos: "\<And>e. getMousePos cv e ?d = getMousePos cv e s"
    by (rule getMousePos_view) (simp_all add: d)
  have "fst (handleMouseMoves cv mvs ?d) =
     ?d\<lparr> currentPath := currentPath ?d @ map (\<lambda>e. getMousePos cv e ?d) mvs,
        lastPoint := Some (last (getMousePos cv down s # map (\<lambda>e. getMousePos cv e ?d) mvs)) \<rparr>"
    using assms by (intro freehand_moves) (simp_all add: d)
  then show ?thesis
    by (simp add: pos recorded_def) (simp add: d)
qed

lemma handleMouseUp_discard:
  "isDrawing t \<Longrightarrow> \<not> isPanning t \<Longrightarrow> length (currentPath t) \<le> 1 \<Longrightarrow>
   handleMouseUp stringify uuid t = t\<lparr> isDrawing := False, currentPath := [], lastPoint := None \<rparr>"
  by (simp add: handleMouseUp_def)

lemma handleMouseUp_commit:
  assumes "isDrawing t" and "\<not> isPanning t" and "2 \<le> length (currentPath t)"
  shows "elements (handleMouseUp stringify uuid t) = elements t @ [newElement stringify uuid t]"
    and "history (handleMouseUp stringify uuid t) =
           slice (history t) 0 (historyIndex t + 1) @ [elements t @ [newElement stringify uuid t]]"
    and "historyIndex (handleMouseUp stringify uuid t) =
           int (length (history (handleMouseUp stringify uuid t))) - 1"
  using assms by (simp_all add: handleMouseUp_def Let_def addToHistory_def)

lemma handleMouseUp_idle:
  "isDrawing t \<Longrightarrow> length (currentPath t) \<le> 1 \<Longrightarrow>
   elements (handleMouseUp stringify uuid t) = elements t
   \<and> history (handleMouseUp stringify uuid t) = history t
   \<and> historyIndex (handleMouseUp stringify uuid t) = historyIndex t"
  by (simp add: handleMouseUp_def)

lemma handleMouseUp_panning:
  "isPanning t \<Longrightarrow>
   handleMouseUp stringify uuid t = t\<lparr> isPanning := False, lastPoint := None \<rparr>"
  by (simp add: handleMouseUp_def)

lemma other_tool_gesture:
  assumes "\<not> is_freehand (currentTool s)" and "currentTool s \<noteq> Hand"
  shows "elements (fst (handleMouseMoves cv mvs (handleMouseDown cv down s))) = elements s"
    and "elements (gesture cv stringify uuid down mvs s) = elements s"
    and "history (gesture cv stringify uuid down mvs s) = history s"
    and "historyIndex (gesture cv stringify uuid down mvs s) = historyIndex s"
proof -
  let ?d = "handleMouseDown cv down s"
  let ?t = "fst (handleMouseMoves cv mvs ?d)"
  have d: "?d = s\<lparr> lastPoint := Some (getMousePos cv down s), isDrawing := True,
        currentPath := [getMousePos cv down s] \<rparr>"
    using assms(2) by (rule handleMouseDown_drawing)
  have "\<exists>p l. ?t = ?d\<lparr> pan := p, lastPoint := l \<rparr>"
  proof (cases "isPanning s")
    case True
    then have "isPanning ?d" "lastPoint ?d = Some (getMousePos cv down s)" by (simp_all add: d)
    from panning_moves [OF this, of cv mvs] obtain p where
      "handleMouseMoves cv mvs ?d = (?d\<lparr> pan := p \<rparr>, [])" by blast
    then have "?t = ?d\<lparr> pan := p, lastPoint := lastPoint ?d \<rparr>" by simp
    then show ?thesis by blast
  next
    case False
    then have "\<not> isPanning ?d" "\<not> is_freehand (currentTool ?d)" using assms(1) by (simp_all add: d)
    from other_tool_moves [OF this, of cv mvs] obtain l where
      "handleMouseMoves cv mvs ?d = (?d\<lparr> lastPoint := l \<rparr>, [])" by blast
    then have "?t = ?d\<lparr> pan := pan ?d, lastPoint := l \<rparr>" by simp
    then show ?thesis by blast
  qed
  then obtain p l where t: "?t = ?d\<lparr> pan := p, lastPoint := l \<rparr>" by blast
  have ts: "elements ?t = elements s" "history ?t = history s" "historyIndex ?t = historyIndex s"
    "isDrawing ?t" "length (currentPath ?t) \<le> 1"
    unfolding t by (simp_all add: d)
  show "elements ?t = elements s" by (rule ts(1))
  have up: "elements (handleMouseUp stringify uuid ?t) = elements ?t
    \<and> history (handleMouseUp stringify uuid ?t) = history ?t
    \<and> historyIndex (handleMouseUp stringify uuid ?t) = historyIndex ?t"
  proof (cases "isPanning ?t")
    case True
    then show ?thesis by (simp add: handleMouseUp_panning)
  next
    case False
    from ts(4,5) show ?thesis by (rule handleMouseUp_idle)
  qed
  show "elements (gesture cv stringify uuid down mvs s) = elements s"
    "history (gesture cv stringify uuid down mvs s) = history s"
    "historyIndex (gesture cv stringify uuid down mvs s) = historyIndex s"
    unfolding gesture_def using up by (simp_all only: ts(1-3))
qed

lemma previewSegment_view:
  "ctx t = ctx s \<Longrightarrow> zoom t = zoom s \<Longrightarrow> pan t = pan s \<Longrightarrow> currentColor t = currentColor s \<Longrightarrow>
   currentSize t = currentSize s \<Longrightarrow> currentTool t = currentTool s \<Longrightarrow>
   previewSegment t a b = previewSegment s a b"
  by (simp add: previewSegment_def)

lemma freehand_moves_preview:
  "\<not> isPanning t \<Longrightarrow> isDrawing t \<Longrightarrow> is_freehand (currentTool t) \<Longrightarrow> lastPoint t = Some lp \<Longrightarrow>
   snd (handleMouseMoves cv mvs t) =
     concat (map (\<lambda>(p, q). previewSegment t p q)
       (zip (lp # map (\<lambda>e. getMousePos cv e t) mvs) (map (\<lambda>e. getMousePos cv e t) mvs)))"
proof (induction mvs arbitrary: t lp)
  case Nil
  then show ?case by simp
next
  case (Cons e es)
  let ?p = "getMousePos cv e t"
  let ?t1 = "t\<lparr> currentPath := currentPath t @ [?p], lastPoint := Some ?p \<rparr>"
  have step: "handleMouseMove cv e t = (?t1, previewSegment t lp ?p)"
    using Cons.prems by (rule freehand_move)
  have pos: "\<And>e'. getMousePos cv e' ?t1 = getMousePos cv e' t"
    by (rule getMousePos_view) simp_all
  have seg: "\<And>a b. previewSegment ?t1 a b = previewSegment t a b"
    by (rule previewSegment_view) simp_all
  have "snd (handleMouseMoves cv es ?t1) =
     concat (map (\<lambda>(p, q). previewSegment ?t1 p q)
       (zip (?p # map (\<lambda>e. getMousePos cv e ?t1) es) (map (\<lambda>e. getMousePos cv e ?t1) es)))"
    using Cons.prems by (intro Cons.IH) simp_all
  then have ih: "snd (handleMouseMoves cv es ?t1) =
     concat (map (\<lambda>(p, q). previewSegment t p q)
       (zip (?p # map (\<lambda>e. getMousePos cv e t) es) (map (\<lambda>e. getMousePos cv e t) es)))"
    by (simp only: pos seg)
  have un: "snd (handleMouseMoves cv (e # es) t) =
     previewSegment t lp ?p @ snd (handleMouseMoves cv es ?t1)"
    using step by (simp add: split_beta)
  show ?case unfolding un ih by simp
qed

lemma drawElement_stroke:
  assumes "is_freehand (currentTool t)" and "2 \<le> length (currentPath t)"
    and "stringify (currentPath t) \<noteq> []"
    and "parse (stringify (currentPath t)) = Some (currentPath t)"
  shows "drawElement parse now (newElement stringify uuid t) =
     Some ([Save,
            SetStrokeStyle (currentColor t),
            SetFillStyle ''transparent'',
            SetLineWidth (if currentSize t = 0 then 2 else currentSize t),
            SetGlobalAlpha (if currentTool t = Highlighter then 0.5 else 1),
            BeginPath,
            MoveTo (px (hd (currentPath t))) (py (hd (currentPath t)))]
           @ map (\<lambda>p. LineTo (px p) (py p)) (tl (currentPath t))
           @ [Stroke, Restore])"
proof -
  let ?el = "newElement stringify uuid t"
  have ty: "elem_type ?el \<in> {''pen'', ''highlighter'', ''spray'', ''calligraphy''}"
    using assms(1) by (auto simp: newElement_def is_freehand_def)
  have c: "content ?el = stringify (currentPath t)" by (simp add: newElement_def)
  have body: "drawPath parse ?el =
      Some ([BeginPath, MoveTo (px (hd (currentPath t))) (py (hd (currentPath t)))]
            @ map (\<lambda>p. LineTo (px p) (py p)) (tl (currentPath t)) @ [Stroke])"
    using assms(2,3,4) by (simp add: drawPath_def c)
  have st: "color (style ?el) = currentColor t"
    "backgroundColor (style ?el) = ''transparent''"
    "num_or (strokeWidth (style ?el)) 2 = (if currentSize t = 0 then 2 else currentSize t)"
    "num_or (opacity (style ?el)) 1 = (if currentTool t = Highlighter then 0.5 else 1)"
    by (simp_all add: newElement_def num_or_def)
  show ?thesis
    unfolding drawElement_def Let_def using ty by (simp add: body st)
qed

subsection \<open>Coordinates\<close>

text \<open>
  What the round trip through \<open>getMousePos\<close> and the renderer's transform yields on a
  canvas that exists, and what the inverse of the renderer's transform would yield.
\<close>

lemma getMousePos_roundtrip_offset:
  assumes "zoom s \<noteq> 0"
  shows "docToCanvas s (getMousePos (Some c) e s) =
     \<lparr> px = px (clientToCanvas c e) + px (pan s) * (zoom s - 1),
       py = py (clientToCanvas c e) + py (pan s) * (zoom s - 1) \<rparr>"
proof -
  have key: "z * ((a - p) / z) + z * p = a + p * (z - 1)" if "z \<noteq> 0" for z a p :: real
    using that by (simp add: field_simps)
  have m: "foldl ctm_step ctm_identity (redrawCanvas_prologue s) =
    \<lparr> m_a = zoom s, m_d = zoom s, m_e = zoom s * px (pan s), m_f = zoom s * py (pan s) \<rparr>"
    by (simp add: redrawCanvas_prologue_def ctm_identity_def)
  show ?thesis
    unfolding docToCanvas_def m ctm_apply_def getMousePos_def clientToCanvas_def Let_def
    by (simp only: option.case ctm.simps point.simps key [OF assms])
qed

lemma renderer_inverse_roundtrip:
  assumes "zoom s \<noteq> 0"
  shows "docToCanvas s \<lparr> px = a / zoom s - px (pan s), py = b / zoom s - py (pan s) \<rparr> =
     \<lparr> px = a, py = b \<rparr>"
  using assms
  by (simp add: docToCanvas_def redrawCanvas_prologue_def ctm_identity_def ctm_apply_def
      algebra_simps)

text \<open>
  C1. The claim: for every zoom, pan and screen point, \<open>getMousePos\<close> followed by the
  renderer's transform (\<^verbatim>\<open>scale(zoom)\<close>, then \<^verbatim>\<open>translate(pan.x, pan.y)\<close>) gives the
  screen point back, since \<open>getMousePos\<close> computes \<open>sx * scaleX / zoom - pan.x\<close>.
  The code computes \<open>(sx * scaleX - pan.x) / zoom\<close> instead. With zoom 2 and pan
  \<open>(10, 10)\<close>, on a canvas shown at its own resolution, the pointer at pixel
  \<open>(100, 100)\<close> is mapped to the document point \<open>(45, 45)\<close>, which the renderer paints
  at pixel \<open>(110, 110)\<close>; the document point \<open>(40, 40)\<close> of the claim's formula is the
  one painted at \<open>(100, 100)\<close>.
\<close>

theorem getMousePos_roundtrip_off_at_zoom_2:
  "clientToCanvas full_canvas (pointer_at 100 100) = \<lparr> px = 100, py = 100 \<rparr>
   \<and> getMousePos (Some full_canvas) (pointer_at 100 100)
        (init_editor (board [] 2 \<lparr> px = 10, py = 10 \<rparr>)) = \<lparr> px = 45, py = 45 \<rparr>
   \<and> docToCanvas (init_editor (board [] 2 \<lparr> px = 10, py = 10 \<rparr>)) \<lparr> px = 45, py = 45 \<rparr>
        = \<lparr> px = 110, py = 110 \<rparr>
   \<and> docToCanvas (init_editor (board [] 2 \<lparr> px = 10, py = 10 \<rparr>))
        (getMousePos (Some full_canvas) (pointer_at 100 100)
          (init_editor (board [] 2 \<lparr> px = 10, py = 10 \<rparr>)))
        \<noteq> clientToCanvas full_canvas (pointer_at 100 100)
   \<and> docToCanvas (init_editor (board [] 2 \<lparr> px = 10, py = 10 \<rparr>))
        \<lparr> px = 100 * 1 / 2 - 10, py = 100 * 1 / 2 - 10 \<rparr> = \<lparr> px = 100, py = 100 \<rparr>"
  by (simp add: clientToCanvas_def getMousePos_def docToCanvas_def redrawCanvas_prologue_def
      ctm_identity_def ctm_apply_def full_canvas_def pointer_at_def init_editor_def board_def
      Let_def)

subsection \<open>History\<close>

text \<open>
  C2. From the state the editor opens in, every finite sequence of \<open>addToHistory\<close>,
  \<open>undo\<close> and \<open>redo\<close> runs without an exception and ends in a state with
  \<open>0 \<le> historyIndex < history.length\<close>. In any state, \<open>undo\<close> at index 0 and \<open>redo\<close>
  at the last index return the state as it is: neither \<open>historyIndex\<close> nor the element
  list changes.
\<close>

theorem history_index_in_range:
  "(\<exists>s. run_ops ops (init_editor wb) = Inr s
        \<and> 0 \<le> historyIndex s \<and> historyIndex s < int (length (history s)))
   \<and> (historyIndex s0 = 0 \<longrightarrow> undo s0 = Inr s0)
   \<and> (historyIndex s0 = int (length (history s0)) - 1 \<longrightarrow> redo s0 = Inr s0)"
  using run_ops_inv [OF hist_inv_init, of ops wb] undo_at_start [of s0] redo_at_end [of s0]
  by (auto simp: hist_inv_def)

text \<open>The statement at the blank board and a run that meets both ends of the history.\<close>

theorem history_index_in_range_witness:
  "historyIndex (init_editor (board [] 1 origin)) = 0
   \<and> undo (init_editor (board [] 1 origin)) = Inr (init_editor (board [] 1 origin))
   \<and> historyIndex (init_editor (board [] 1 origin))
       = int (length (history (init_editor (board [] 1 origin)))) - 1
   \<and> redo (init_editor (board [] 1 origin)) = Inr (init_editor (board [] 1 origin))
   \<and> (\<exists>s. run_ops [AddToHistory [sticky_note], Undo, Undo, Redo, Redo]
             (init_editor (board [] 1 origin)) = Inr s
          \<and> 0 \<le> historyIndex s \<and> historyIndex s < int (length (history s)))"
proof -
  let ?s = "init_editor (board [] 1 origin)"
  have h1: "historyIndex ?s = 0" by (simp add: init_editor_def)
  have h2: "historyIndex ?s = int (length (history ?s)) - 1" by (simp add: init_editor_def)
  from history_index_in_range
    [of "[AddToHistory [sticky_note], Undo, Undo, Redo, Redo]" "board [] 1 origin" ?s] h1 h2
  show ?thesis by blast
qed

text \<open>
  C3. In a state with \<open>0 \<le> historyIndex < history.length\<close>, \<open>addToHistory newElements\<close>
  makes the history the entries \<open>0 .. historyIndex\<close> followed by \<open>newElements\<close> and
  sets \<open>historyIndex\<close> to the new last index, so that \<open>redo\<close> then changes nothing.
  After \<open>n\<close> undos (which never throw) the commit keeps the entries
  \<open>0 .. historyIndex - n\<close> only (entry 0 only, once \<open>n\<close> exceeds \<open>historyIndex\<close>):
  all entries that could be redone are gone, and \<open>redo\<close> changes nothing.
\<close>

theorem addToHistory_discards_redo:
  assumes "0 \<le> historyIndex s" and "historyIndex s < int (length (history s))"
  shows "history (addToHistory es s) = take (nat (historyIndex s) + 1) (history s) @ [es]
    \<and> historyIndex (addToHistory es s) = int (length (history (addToHistory es s))) - 1
    \<and> redo (addToHistory es s) = Inr (addToHistory es s)
    \<and> (\<exists>t. undos n s = Inr t
          \<and> history (addToHistory es t) = take (nat (historyIndex s - int n) + 1) (history s) @ [es]
          \<and> historyIndex (addToHistory es t) = int (nat (historyIndex s - int n)) + 1
          \<and> redo (addToHistory es t) = Inr (addToHistory es t))"
proof -
  from assms have inv: "hist_inv s" by (simp add: hist_inv_def)
  from undos_inv [OF inv, of n] obtain t where t: "undos n s = Inr t" "hist_inv t"
    "history t = history s" "historyIndex t = max 0 (historyIndex s - int n)" by blast
  have t0: "0 \<le> historyIndex t" using t(2) by (simp add: hist_inv_def)
  have nat_eq: "nat (historyIndex t) = nat (historyIndex s - int n)"
    using t(4) by simp
  have h: "history (addToHistory es t) = take (nat (historyIndex s - int n) + 1) (history s) @ [es]"
    using addToHistory_history [OF t0, of es] t(3) nat_eq by simp
  have len: "nat (historyIndex s - int n) + 1 \<le> length (history s)"
    using assms by linarith
  have i: "historyIndex (addToHistory es t) = int (nat (historyIndex s - int n)) + 1"
    using addToHistory_index [of es t] h len by simp
  show ?thesis
    using addToHistory_history [OF assms(1), of es] addToHistory_index [of es s]
      redo_at_end [OF addToHistory_index [of es s]] redo_at_end [OF addToHistory_index [of es t]]
      t(1) h i by simp
qed

text \<open>One commit, one undo, then a second commit: the undone entry is gone.\<close>

theorem addToHistory_discards_redo_witness:
  "0 \<le> historyIndex (addToHistory [sticky_note] (init_editor (board [] 1 origin)))
   \<and> historyIndex (addToHistory [sticky_note] (init_editor (board [] 1 origin)))
       < int (length (history (addToHistory [sticky_note] (init_editor (board [] 1 origin)))))
   \<and> history (addToHistory [laser_mark None]
        (addToHistory [sticky_note] (init_editor (board [] 1 origin))))
       = [[], [sticky_note], [laser_mark None]]
   \<and> (\<exists>t. undos 1 (addToHistory [sticky_note] (init_editor (board [] 1 origin))) = Inr t
          \<and> history (addToHistory [laser_mark None] t) = [[], [laser_mark None]]
          \<and> historyIndex (addToHistory [laser_mark None] t) = 1
          \<and> redo (addToHistory [laser_mark None] t) = Inr (addToHistory [laser_mark None] t))"
proof -
  let ?s = "addToHistory [sticky_note] (init_editor (board [] 1 origin))"
  have i: "historyIndex ?s = 1" and h: "history ?s = [[], [sticky_note]]"
    by (simp_all add: addToHistory_def slice_def init_editor_def board_def Let_def)
  have h1: "0 \<le> historyIndex ?s" and h2: "historyIndex ?s < int (length (history ?s))"
    by (simp_all add: i h)
  from addToHistory_discards_redo [OF h1 h2, of "[laser_mark None]" 1] h1 h2
  show ?thesis by (simp add: i h)
qed

subsection \<open>Freehand strokes\<close>

text \<open>
  C4. A gesture with a freehand tool (pen, highlighter, spray, calligraphy) that starts
  while no pan is under way records the down-point and one point for each move. With no
  move (a single click) pointer-up leaves \<open>elements\<close>, \<open>history\<close> and \<open>historyIndex\<close>
  as they were. With at least one move, so two or more recorded points, pointer-up
  appends exactly one element and commits exactly one history entry: the history is
  the entries \<open>0 .. historyIndex\<close> followed by the new element list, and \<open>historyIndex\<close>
  is its last index. More generally, pointer-up on any drawing state with at most one
  recorded point changes none of the three.
\<close>

theorem stroke_commit_threshold:
  assumes "is_freehand (currentTool s)" and "\<not> isPanning s"
    and "0 \<le> historyIndex s" and "historyIndex s < int (length (history s))"
  shows "(let t = fst (handleMouseMoves cv mvs (handleMouseDown cv down s));
              u = handleMouseUp stringify uuid t
          in currentPath t = recorded cv down mvs s
           \<and> (mvs = [] \<longrightarrow>
                elements u = elements s \<and> history u = history s \<and> historyIndex u = historyIndex s)
           \<and> (mvs \<noteq> [] \<longrightarrow>
                elements u = elements s @ [newElement stringify uuid t]
              \<and> history u = take (nat (historyIndex s) + 1) (history s) @ [elements u]
              \<and> historyIndex u = int (length (history u)) - 1))
       \<and> (isDrawing s' \<and> \<not> isPanning s' \<and> length (currentPath s') \<le> 1 \<longrightarrow>
            elements (handleMouseUp stringify uuid s') = elements s'
          \<and> history (handleMouseUp stringify uuid s') = history s'
          \<and> historyIndex (handleMouseUp stringify uuid s') = historyIndex s')"
proof -
  let ?t = "fst (handleMouseMoves cv mvs (handleMouseDown cv down s))"
  let ?u = "handleMouseUp stringify uuid ?t"
  have t: "?t = s\<lparr> lastPoint := Some (last (recorded cv down mvs s)), isDrawing := True,
        currentPath := recorded cv down mvs s \<rparr>"
    using assms(1,2) by (rule freehand_gesture_state)
  have path: "currentPath ?t = recorded cv down mvs s" by (simp add: t)
  have dr: "isDrawing ?t" "\<not> isPanning ?t" using assms(2) by (simp_all add: t)
  have click: "elements ?u = elements s \<and> history ?u = history s \<and> historyIndex ?u = historyIndex s"
    if "mvs = []"
  proof -
    have "length (recorded cv down mvs s) \<le> 1" using that by (simp add: recorded_def)
    then have "length (currentPath ?t) \<le> 1" by (simp only: path)
    from handleMouseUp_discard [OF dr this] show ?thesis by (simp add: t)
  qed
  have stroke: "elements ?u = elements s @ [newElement stringify uuid ?t]
              \<and> history ?u = take (nat (historyIndex s) + 1) (history s) @ [elements ?u]
              \<and> historyIndex ?u = int (length (history ?u)) - 1"
    if "mvs \<noteq> []"
  proof -
    have "2 \<le> length (recorded cv down mvs s)"
      using that by (cases mvs) (simp_all add: recorded_def)
    then have len: "2 \<le> length (currentPath ?t)" by (simp only: path)
    have e: "elements ?u = elements ?t @ [newElement stringify uuid ?t]"
      using dr len by (rule handleMouseUp_commit(1))
    have h: "history ?u = slice (history ?t) 0 (historyIndex ?t + 1)
               @ [elements ?t @ [newElement stringify uuid ?t]]"
      using dr len by (rule handleMouseUp_commit(2))
    have i: "historyIndex ?u = int (length (history ?u)) - 1"
      using dr len by (rule handleMouseUp_commit(3))
    have ts: "elements ?t = elements s" "history ?t = history s" "historyIndex ?t = historyIndex s"
      by (simp_all add: t)
    have sl: "slice (history s) 0 (historyIndex s + 1) = take (nat (historyIndex s) + 1) (history s)"
      using assms(3) by (simp add: slice_prefix nat_add_distrib)
    show ?thesis using e h i by (simp only: ts sl)
  qed
  have up: "isDrawing s' \<and> \<not> isPanning s' \<and> length (currentPath s') \<le> 1 \<longrightarrow>
            elements (handleMouseUp stringify uuid s') = elements s'
          \<and> history (handleMouseUp stringify uuid s') = history s'
          \<and> historyIndex (handleMouseUp stringify uuid s') = historyIndex s'"
    by (simp add: handleMouseUp_discard)
  show ?thesis
    unfolding Let_def using path click stroke up by blast
qed

text \<open>A pen stroke of two points on the blank board, and a single click.\<close>

theorem stroke_commit_threshold_witness:
  "is_freehand (currentTool (init_editor (board [] 1 origin)))
   \<and> \<not> isPanning (init_editor (board [] 1 origin))
   \<and> 0 \<le> historyIndex (init_editor (board [] 1 origin))
   \<and> historyIndex (init_editor (board [] 1 origin))
       < int (length (history (init_editor (board [] 1 origin))))
   \<and> isDrawing (handleMouseDown (Some full_canvas) (pointer_at 10 10)
        (init_editor (board [] 1 origin)))
   \<and> \<not> isPanning (handleMouseDown (Some full_canvas) (pointer_at 10 10)
        (init_editor (board [] 1 origin)))
   \<and> length (currentPath (handleMouseDown (Some full_canvas) (pointer_at 10 10)
        (init_editor (board [] 1 origin)))) \<le> 1
   \<and> elements (handleMouseUp (\<lambda>ps. ''[..]'') ''id-1''
        (handleMouseDown (Some full_canvas) (pointer_at 10 10)
          (init_editor (board [] 1 origin)))) = []
   \<and> length (elements (handleMouseUp (\<lambda>ps. ''[..]'') ''id-1''
        (fst (handleMouseMoves (Some full_canvas) [pointer_at 20 20]
          (handleMouseDown (Some full_canvas) (pointer_at 10 10)
            (init_editor (board [] 1 origin))))))) = 1
   \<and> length (history (handleMouseUp (\<lambda>ps. ''[..]'') ''id-1''
        (fst (handleMouseMoves (Some full_canvas) [pointer_at 20 20]
          (handleMouseDown (Some full_canvas) (pointer_at 10 10)
            (init_editor (board [] 1 origin))))))) = 2"
proof -
  let ?s = "init_editor (board [] 1 origin)"
  let ?d = "handleMouseDown (Some full_canvas) (pointer_at 10 10) ?s"
  have s: "currentTool ?s = Pen" "\<not> isPanning ?s" "historyIndex ?s = 0" "history ?s = [[]]"
    "elements ?s = []"
    by (simp_all add: init_editor_def board_def)
  have h1: "is_freehand (currentTool ?s)" by (simp add: s is_freehand_def)
  have h2: "\<not> isPanning ?s" by (simp add: s)
  have h3: "0 \<le> historyIndex ?s" and h4: "historyIndex ?s < int (length (history ?s))"
    by (simp_all add: s)
  have d: "isDrawing ?d" "\<not> isPanning ?d" "length (currentPath ?d) \<le> 1"
    "elements ?d = []"
    by (simp_all add: handleMouseDown_def Let_def s)
  from stroke_commit_threshold [OF h1 h2 h3 h4, of "Some full_canvas" "[pointer_at 20 20]"
      "pointer_at 10 10" "\<lambda>ps. ''[..]''" "''id-1''" ?d] d h1 h2 h3 h4
  show ?thesis by (simp add: Let_def s)
qed

subsection \<open>Shape tools\<close>

text \<open>
  C5, as the claim states it: with the rectangle tool, on the blank board shown at zoom
  1, a pointer-down at the document point \<open>(10, 10)\<close>, a move to \<open>(110, 60)\<close> and a
  pointer-up there leave the element list empty and the history at its single entry: no
  shape element with position \<open>(10, 10)\<close> and size \<open>100 \<times> 50\<close> is committed.
\<close>

theorem rectangle_gesture_no_element:
  "getMousePos (Some full_canvas) (pointer_at 10 10)
     (setCurrentTool (ShapeTool Rectangle) (init_editor (board [] 1 origin)))
     = \<lparr> px = 10, py = 10 \<rparr>
   \<and> getMousePos (Some full_canvas) (pointer_at 110 60)
     (setCurrentTool (ShapeTool Rectangle) (init_editor (board [] 1 origin)))
     = \<lparr> px = 110, py = 60 \<rparr>
   \<and> elements (gesture (Some full_canvas) (\<lambda>ps. ''[..]'') ''id-1'' (pointer_at 10 10)
        [pointer_at 110 60]
        (setCurrentTool (ShapeTool Rectangle) (init_editor (board [] 1 origin)))) = []
   \<and> history (gesture (Some full_canvas) (\<lambda>ps. ''[..]'') ''id-1'' (pointer_at 10 10)
        [pointer_at 110 60]
        (setCurrentTool (ShapeTool Rectangle) (init_editor (board [] 1 origin)))) = [[]]
   \<and> historyIndex (gesture (Some full_canvas) (\<lambda>ps. ''[..]'') ''id-1'' (pointer_at 10 10)
        [pointer_at 110 60]
        (setCurrentTool (ShapeTool Rectangle) (init_editor (board [] 1 origin)))) = 0"
  by (simp add: gesture_def handleMouseDown_def handleMouseMove_def handleMouseUp_def
      getMousePos_def setCurrentTool_def init_editor_def board_def origin_def full_canvas_def
      pointer_at_def is_freehand_def Let_def)

text \<open>
  C5, amended. A gesture with the rectangle tool, whatever its down-point and its moves
  (so also from \<open>(10, 10)\<close> to \<open>(110, 60)\<close>), commits no element: \<open>elements\<close>,
  \<open>history\<close> and \<open>historyIndex\<close> after pointer-up are those before pointer-down.
\<close>

theorem rectangle_gesture_commits_nothing:
  assumes "currentTool s = ShapeTool Rectangle"
  shows "elements (gesture cv stringify uuid down mvs s) = elements s
       \<and> history (gesture cv stringify uuid down mvs s) = history s
       \<and> historyIndex (gesture cv stringify uuid down mvs s) = historyIndex s"
proof -
  have "\<not> is_freehand (currentTool s)" "currentTool s \<noteq> Hand"
    using assms by (simp_all add: is_freehand_def)
  then show ?thesis by (simp add: other_tool_gesture)
qed

text \<open>The gesture from \<open>(10, 10)\<close> to \<open>(110, 60)\<close> on a board that holds a sticky note.\<close>

theorem rectangle_gesture_commits_nothing_witness:
  "currentTool (setCurrentTool (ShapeTool Rectangle) (init_editor (board [sticky_note] 1 origin)))
     = ShapeTool Rectangle
   \<and> elements (gesture (Some full_canvas) (\<lambda>ps. ''[..]'') ''id-1'' (pointer_at 10 10)
        [pointer_at 110 60]
        (setCurrentTool (ShapeTool Rectangle) (init_editor (board [sticky_note] 1 origin))))
       = [sticky_note]
   \<and> history (gesture (Some full_canvas) (\<lambda>ps. ''[..]'') ''id-1'' (pointer_at 10 10)
        [pointer_at 110 60]
        (setCurrentTool (ShapeTool Rectangle) (init_editor (board [sticky_note] 1 origin))))
       = [[sticky_note]]
   \<and> historyIndex (gesture (Some full_canvas) (\<lambda>ps. ''[..]'') ''id-1'' (pointer_at 10 10)
        [pointer_at 110 60]
        (setCurrentTool (ShapeTool Rectangle) (init_editor (board [sticky_note] 1 origin))))
       = 0"
proof -
  let ?s = "setCurrentTool (ShapeTool Rectangle) (init_editor (board [sticky_note] 1 origin))"
  have h: "currentTool ?s = ShapeTool Rectangle" by (simp add: setCurrentTool_def)
  have s: "elements ?s = [sticky_note]" "history ?s = [[sticky_note]]" "historyIndex ?s = 0"
    by (simp_all add: setCurrentTool_def init_editor_def board_def)
  from rectangle_gesture_commits_nothing [OF h, of "Some full_canvas" "\<lambda>ps. ''[..]''"
      "''id-1''" "pointer_at 10 10" "[pointer_at 110 60]"] h
  show ?thesis by (simp only: s)
qed

subsection \<open>Eraser\<close>

text \<open>
  C6, as the claim states it: the board holds one sticky note that covers
  \<open>[0, 100] \<times> [0, 100]\<close>. With the eraser, a pointer-down at the document point
  \<open>(50, 50)\<close>, inside the note, and two moves inside it remove nothing: the note is in
  the element list after the move ticks and after pointer-up.
\<close>

theorem eraser_keeps_element_under_cursor:
  "getMousePos (Some full_canvas) (pointer_at 50 50)
     (setCurrentTool Eraser (init_editor (board [sticky_note] 1 origin)))
     = \<lparr> px = 50, py = 50 \<rparr>
   \<and> px (position sticky_note) \<le> 50
   \<and> 50 \<le> px (position sticky_note) + width (elem_size sticky_note)
   \<and> py (position sticky_note) \<le> 50
   \<and> 50 \<le> py (position sticky_note) + height (elem_size sticky_note)
   \<and> elements (fst (handleMouseMoves (Some full_canvas) [pointer_at 50 50, pointer_at 60 60]
        (handleMouseDown (Some full_canvas) (pointer_at 50 50)
          (setCurrentTool Eraser (init_editor (board [sticky_note] 1 origin))))))
       = [sticky_note]
   \<and> elements (gesture (Some full_canvas) (\<lambda>ps. ''[..]'') ''id-1'' (pointer_at 50 50)
        [pointer_at 50 50, pointer_at 60 60]
        (setCurrentTool Eraser (init_editor (board [sticky_note] 1 origin))))
       = [sticky_note]"
  by (simp add: gesture_def handleMouseDown_def handleMouseMove_def handleMouseUp_def
      getMousePos_def setCurrentTool_def init_editor_def board_def origin_def full_canvas_def
      pointer_at_def is_freehand_def sticky_note_def Let_def)

text \<open>
  C6, amended. With the eraser tool active, for every pointer-down and every sequence of
  moves, no move tick removes an element (the element list after the moves is the one
  before the gesture), and pointer-up commits nothing: \<open>elements\<close>, \<open>history\<close> and
  \<open>historyIndex\<close> are those before the gesture.
\<close>

theorem eraser_gesture_removes_nothing:
  assumes "currentTool s = Eraser"
  shows "elements (fst (handleMouseMoves cv mvs (handleMouseDown cv down s))) = elements s
       \<and> elements (gesture cv stringify uuid down mvs s) = elements s
       \<and> history (gesture cv stringify uuid down mvs s) = history s
       \<and> historyIndex (gesture cv stringify uuid down mvs s) = historyIndex s"
proof -
  have "\<not> is_freehand (currentTool s)" "currentTool s \<noteq> Hand"
    using assms by (simp_all add: is_freehand_def)
  then show ?thesis by (simp add: other_tool_gesture)
qed

text \<open>The eraser dragged across the sticky note.\<close>

theorem eraser_gesture_removes_nothing_witness:
  "currentTool (setCurrentTool Eraser (init_editor (board [sticky_note] 1 origin))) = Eraser
   \<and> elements (fst (handleMouseMoves (Some full_canvas) [pointer_at 50 50, pointer_at 60 60]
        (handleMouseDown (Some full_canvas) (pointer_at 50 50)
          (setCurrentTool Eraser (init_editor (board [sticky_note] 1 origin))))))
       = [sticky_note]
   \<and> history (gesture (Some full_canvas) (\<lambda>ps. ''[..]'') ''id-1'' (pointer_at 50 50)
        [pointer_at 50 50, pointer_at 60 60]
        (setCurrentTool Eraser (init_editor (board [sticky_note] 1 origin))))
       = [[sticky_note]]
   \<and> historyIndex (gesture (Some full_canvas) (\<lambda>ps. ''[..]'') ''id-1'' (pointer_at 50 50)
        [pointer_at 50 50, pointer_at 60 60]
        (setCurrentTool Eraser (init_editor (board [sticky_note] 1 origin))))
       = 0"
proof -
  let ?s = "setCurrentTool Eraser (init_editor (board [sticky_note] 1 origin))"
  have h: "currentTool ?s = Eraser" by (simp add: setCurrentTool_def)
  have s: "elements ?s = [sticky_note]" "history ?s = [[sticky_note]]" "historyIndex ?s = 0"
    by (simp_all add: setCurrentTool_def init_editor_def board_def)
  from eraser_gesture_removes_nothing [OF h, of "Some full_canvas"
      "[pointer_at 50 50, pointer_at 60 60]" "pointer_at 50 50" "\<lambda>ps. ''[..]''" "''id-1''"] h
  show ?thesis by (simp only: s)
qed

subsection \<open>Saving\<close>

text \<open>
  C7, as the claim states it: a board is opened that holds one laser mark; the
  whiteboard handed to \<^verbatim>\<open>onSave\<close> has that laser mark in \<open>content.elements\<close>.
\<close>

theorem handleSave_keeps_laser:
  "elem_type (laser_mark (Some 1000)) = ''laser''
   \<and> wc_elements (wb_content
        (handleSave (board [laser_mark (Some 1000)] 1 origin) 2000
           (init_editor (board [laser_mark (Some 1000)] 1 origin))))
       = [laser_mark (Some 1000)]"
  by (simp add: handleSave_def init_editor_def board_def laser_mark_def)

text \<open>
  C7, amended. For every in-memory element list, \<open>handleSave\<close> hands \<^verbatim>\<open>onSave\<close> a
  whiteboard whose \<open>content.elements\<close> is that list as it is: every element, of type
  laser or not, is kept unchanged and in order. Zoom, pan and canvas size are those of
  the editor, \<open>updatedAt\<close> is the time of the call, and the other fields of the
  whiteboard are those it was opened with.
\<close>

theorem handleSave_keeps_all_elements:
  "wc_elements (wb_content (handleSave wb now s)) = elements s
   \<and> filter (\<lambda>el. elem_type el \<noteq> ''laser'') (wc_elements (wb_content (handleSave wb now s)))
       = filter (\<lambda>el. elem_type el \<noteq> ''laser'') (elements s)
   \<and> wc_zoom (wb_content (handleSave wb now s)) = zoom s
   \<and> wc_pan (wb_content (handleSave wb now s)) = pan s
   \<and> wc_canvasSize (wb_content (handleSave wb now s)) = canvasSize s
   \<and> handleSave wb now s = wb\<lparr> wb_content := wb_content (handleSave wb now s), updatedAt := now \<rparr>"
  by (simp add: handleSave_def)

subsection \<open>Laser marks\<close>

text \<open>
  C8, as the claim states it: a laser mark with timestamp 0, painted when the clock
  reads 5000, has \<open>now - timestamp = 5000 > 3000\<close>, and \<open>drawLaser\<close> paints it at full
  opacity: \<^verbatim>\<open>element.timestamp || now\<close> takes the timestamp 0 for a missing one.
\<close>

theorem drawLaser_paints_zero_timestamp:
  "timestamp (laser_mark (Some 0)) = Some 0
   \<and> (5000 :: real) - 0 > 3000
   \<and> drawLaser 5000 (laser_mark (Some 0)) =
       [SetGlobalAlpha 1, SetFillStyle ''#ff0000'', BeginPath, Arc 5 5 8 0 (2 * pi), FillCmd]"
  by (simp add: drawLaser_def laser_mark_def num_or_def Let_def)

text \<open>
  C8, amended. For every laser element whose timestamp is present and not 0:
  \<open>drawLaser\<close> makes no call at all when \<open>now - timestamp\<close> exceeds 3000 ms, and for an
  age strictly between 0 and 3000 ms it fills a circle of radius 8 at the element's
  position with \<open>globalAlpha = 1 - age / 3000\<close>, a value strictly between 0 and 1.
  \<open>drawElement\<close> wraps these calls between its style assignments and \<open>restore\<close>.
\<close>

theorem drawLaser_fade:
  assumes "timestamp el = Some t" and "t \<noteq> 0"
  shows "(now - t > 3000 \<longrightarrow> drawLaser now el = [])
       \<and> (0 < now - t \<and> now - t < 3000 \<longrightarrow>
            drawLaser now el =
              [SetGlobalAlpha (1 - (now - t) / 3000), SetFillStyle ''#ff0000'', BeginPath,
               Arc (px (position el)) (py (position el)) 8 0 (2 * pi), FillCmd]
          \<and> 0 < 1 - (now - t) / 3000 \<and> 1 - (now - t) / 3000 < 1)
       \<and> (elem_type el = ''laser'' \<longrightarrow>
            drawElement parse now el =
              Some ([Save, SetStrokeStyle (color (style el)),
                     SetFillStyle (backgroundColor (style el)),
                     SetLineWidth (num_or (strokeWidth (style el)) 2),
                     SetGlobalAlpha (num_or (opacity (style el)) 1)]
                    @ drawLaser now el @ [Restore]))"
proof -
  have age: "now - num_or (timestamp el) now = now - t"
    using assms by (simp add: num_or_def)
  have old: "drawLaser now el = []" if "now - t > 3000"
    using that by (simp add: drawLaser_def Let_def age)
  have young: "drawLaser now el =
              [SetGlobalAlpha (1 - (now - t) / 3000), SetFillStyle ''#ff0000'', BeginPath,
               Arc (px (position el)) (py (position el)) 8 0 (2 * pi), FillCmd]
          \<and> 0 < 1 - (now - t) / 3000 \<and> 1 - (now - t) / 3000 < 1"
    if "0 < now - t \<and> now - t < 3000"
    using that by (simp add: drawLaser_def Let_def age max_def)
  have wrap: "drawElement parse now el =
              Some ([Save, SetStrokeStyle (color (style el)),
                     SetFillStyle (backgroundColor (style el)),
                     SetLineWidth (num_or (strokeWidth (style el)) 2),
                     SetGlobalAlpha (num_or (opacity (style el)) 1)]
                    @ drawLaser now el @ [Restore])"
    if "elem_type el = ''laser''"
    using that by (simp add: drawElement_def)
  from old young wrap show ?thesis by blast
qed

text \<open>
  A laser mark stamped at 4000 ms: painted at 9000 ms (age 5000) and at 5000 ms
  (age 1000).
\<close>

theorem drawLaser_fade_witness:
  "timestamp (laser_mark (Some 4000)) = Some 4000 \<and> (4000 :: real) \<noteq> 0
   \<and> (9000 :: real) - 4000 > 3000
   \<and> drawLaser 9000 (laser_mark (Some 4000)) = []
   \<and> (0 :: real) < 5000 - 4000 \<and> (5000 :: real) - 4000 < 3000
   \<and> elem_type (laser_mark (Some 4000)) = ''laser''
   \<and> drawLaser 5000 (laser_mark (Some 4000)) =
       [SetGlobalAlpha (2 / 3), SetFillStyle ''#ff0000'', BeginPath, Arc 5 5 8 0 (2 * pi),
        FillCmd]
   \<and> drawElement (\<lambda>c. None) 9000 (laser_mark (Some 4000)) =
       Some [Save, SetStrokeStyle ''#000000'', SetFillStyle ''#ffff88'', SetLineWidth 2,
             SetGlobalAlpha 1, Restore]"
proof -
  have h1: "timestamp (laser_mark (Some 4000)) = Some 4000" by (simp add: laser_mark_def)
  have h2: "(4000 :: real) \<noteq> 0" by simp
  have el: "elem_type (laser_mark (Some 4000)) = ''laser''"
    "position (laser_mark (Some 4000)) = \<lparr> px = 5, py = 5 \<rparr>"
    "style (laser_mark (Some 4000)) = plain_style"
    by (simp_all add: laser_mark_def)
  from drawLaser_fade [OF h1 h2, of 9000 "\<lambda>c. None"] drawLaser_fade [OF h1 h2, of 5000]
    h1 h2
  show ?thesis by (simp add: el plain_style_def num_or_def)
qed

subsection \<open>Panning\<close>

text \<open>
  C9. A gesture that starts with the hand tool selected (pointer-down, any number of
  moves, then pointer-up or pointer-leave) changes nothing but the pan offset and the
  transient fields \<open>isPanning\<close> and \<open>lastPoint\<close>: the state after it is the state
  before it with a new \<open>pan\<close>, \<open>isPanning = False\<close> and \<open>lastPoint = None\<close>. So
  \<open>elements\<close>, \<open>history\<close> and \<open>historyIndex\<close> are the same and no history entry is
  committed. The moves paint nothing.
\<close>

theorem pan_gesture_frame:
  assumes "currentTool s = Hand"
  shows "\<exists>p. gesture cv stringify uuid down mvs s = s\<lparr> pan := p, isPanning := False, lastPoint := None \<rparr>
           \<and> snd (handleMouseMoves cv mvs (handleMouseDown cv down s)) = []"
proof -
  let ?d = "handleMouseDown cv down s"
  have d: "?d = s\<lparr> lastPoint := Some (getMousePos cv down s), isPanning := True \<rparr>"
    using assms by (rule handleMouseDown_hand)
  have "isPanning ?d" "lastPoint ?d = Some (getMousePos cv down s)" by (simp_all add: d)
  from panning_moves [OF this, of cv mvs] obtain p where
    m: "handleMouseMoves cv mvs ?d = (?d\<lparr> pan := p \<rparr>, [])" by blast
  have "gesture cv stringify uuid down mvs s = s\<lparr> pan := p, isPanning := False, lastPoint := None \<rparr>"
    unfolding gesture_def m by (simp add: d handleMouseUp_def)
  with m show ?thesis by auto
qed

text \<open>A drag with the hand across a board that holds a sticky note.\<close>

theorem pan_gesture_frame_witness:
  "currentTool (setCurrentTool Hand (init_editor (board [sticky_note] 1 origin))) = Hand
   \<and> elements (gesture (Some full_canvas) (\<lambda>ps. ''[..]'') ''id-1'' (pointer_at 10 10)
        [pointer_at 30 40, pointer_at 50 60]
        (setCurrentTool Hand (init_editor (board [sticky_note] 1 origin)))) = [sticky_note]
   \<and> history (gesture (Some full_canvas) (\<lambda>ps. ''[..]'') ''id-1'' (pointer_at 10 10)
        [pointer_at 30 40, pointer_at 50 60]
        (setCurrentTool Hand (init_editor (board [sticky_note] 1 origin)))) = [[sticky_note]]
   \<and> historyIndex (gesture (Some full_canvas) (\<lambda>ps. ''[..]'') ''id-1'' (pointer_at 10 10)
        [pointer_at 30 40, pointer_at 50 60]
        (setCurrentTool Hand (init_editor (board [sticky_note] 1 origin)))) = 0"
proof -
  let ?s = "setCurrentTool Hand (init_editor (board [sticky_note] 1 origin))"
  have h: "currentTool ?s = Hand" by (simp add: setCurrentTool_def)
  have s: "elements ?s = [sticky_note]" "history ?s = [[sticky_note]]" "historyIndex ?s = 0"
    by (simp_all add: setCurrentTool_def init_editor_def board_def)
  from pan_gesture_frame [OF h, of "Some full_canvas" "\<lambda>ps. ''[..]''" "''id-1''"
      "pointer_at 10 10" "[pointer_at 30 40, pointer_at 50 60]"]
  obtain p where "gesture (Some full_canvas) (\<lambda>ps. ''[..]'') ''id-1'' (pointer_at 10 10)
      [pointer_at 30 40, pointer_at 50 60] ?s = ?s\<lparr> pan := p, isPanning := False, lastPoint := None \<rparr>"
    by blast
  then show ?thesis using h s by simp
qed

subsection \<open>Opacity of strokes\<close>

text \<open>
  C10. A freehand gesture with at least one move, started while no pan is under way,
  commits one element whose \<open>style.opacity\<close> is 0.5 when the tool is the highlighter
  and 1 when it is the pen, the spray or the calligraphy tool; call it \<open>a\<close>.
  The live preview paints one segment per move, between consecutive recorded points
  (nothing while the context does not exist): each segment sets \<open>globalAlpha = a\<close>
  and then strokes its line. When the committed element is repainted, \<open>drawElement\<close>
  sets \<open>globalAlpha = a\<close> and then strokes the polyline through all recorded points
  (given that \<open>JSON.stringify\<close> yields a non-empty text that \<open>JSON.parse\<close> reads back
  as the path). So the committed stroke is painted with the alpha of its preview.
\<close>

theorem stroke_opacity_is_preview_alpha:
  assumes "is_freehand (currentTool s)" and "\<not> isPanning s" and "mvs \<noteq> []"
  shows "(let t = handleMouseMoves cv mvs (handleMouseDown cv down s);
              u = handleMouseUp stringify uuid (fst t);
              path = recorded cv down mvs s;
              a = (if currentTool s = Highlighter then 0.5 else 1)
          in elements u = elements s @ [newElement stringify uuid (fst t)]
           \<and> opacity (style (last (elements u))) = Some a
           \<and> snd t =
               (if ctx s then
                  concat (map (\<lambda>(p, q).
                      [Save,
                       Scale (zoom s) (zoom s),
                       Translate (px (pan s)) (py (pan s)),
                       SetStrokeStyle (currentColor s),
                       SetLineWidth (currentSize s),
                       SetGlobalAlpha a,
                       BeginPath,
                       MoveTo (px p) (py p),
                       LineTo (px q) (py q),
                       Stroke,
                       Restore])
                    (zip path (tl path)))
                else [])
           \<and> length (zip path (tl path)) = length mvs
           \<and> (stringify path \<noteq> [] \<and> parse (stringify path) = Some path \<longrightarrow>
                drawElement parse now (last (elements u)) =
                  Some ([Save,
                         SetStrokeStyle (currentColor s),
                         SetFillStyle ''transparent'',
                         SetLineWidth (if currentSize s = 0 then 2 else currentSize s),
                         SetGlobalAlpha a,
                         BeginPath,
                         MoveTo (px (hd path)) (py (hd path))]
                        @ map (\<lambda>p. LineTo (px p) (py p)) (tl path)
                        @ [Stroke, Restore])))"
proof -
  let ?d = "handleMouseDown cv down s"
  let ?m = "handleMouseMoves cv mvs ?d"
  let ?t = "fst ?m"
  let ?u = "handleMouseUp stringify uuid ?t"
  let ?path = "recorded cv down mvs s"
  let ?a = "if currentTool s = Highlighter then 0.5 else (1 :: real)"
  have d: "?d = s\<lparr> lastPoint := Some (getMousePos cv down s), isDrawing := True,
        currentPath := [getMousePos cv down s] \<rparr>"
    using assms(1) by (simp add: handleMouseDown_drawing freehand_not_hand)
  have t: "?t = s\<lparr> lastPoint := Some (last ?path), isDrawing := True, currentPath := ?path \<rparr>"
    using assms(1,2) by (rule freehand_gesture_state)
  have ts: "currentTool ?t = currentTool s" "currentPath ?t = ?path" "elements ?t = elements s"
    "currentColor ?t = currentColor s" "currentSize ?t = currentSize s"
    "isDrawing ?t" "\<not> isPanning ?t"
    using assms(2) by (simp_all add: t)
  have len2: "2 \<le> length ?path"
    using assms(3) by (cases mvs) (simp_all add: recorded_def)
  then have len: "2 \<le> length (currentPath ?t)" by (simp only: ts(2))
  have "elements ?u = elements ?t @ [newElement stringify uuid ?t]"
    using ts(6,7) len by (rule handleMouseUp_commit(1))
  then have e: "elements ?u = elements s @ [newElement stringify uuid ?t]"
    by (simp only: ts(3))
  then have l: "last (elements ?u) = newElement stringify uuid ?t" by simp
  have o: "opacity (style (last (elements ?u))) = Some ?a"
    unfolding l by (simp add: newElement_def ts)
  have pos: "\<And>e. getMousePos cv e ?d = getMousePos cv e s"
    by (rule getMousePos_view) (simp_all add: d)
  have seg: "\<And>p q. previewSegment ?d p q = previewSegment s p q"
    by (rule previewSegment_view) (simp_all add: d)
  have "snd ?m = concat (map (\<lambda>(p, q). previewSegment ?d p q)
       (zip (getMousePos cv down s # map (\<lambda>e. getMousePos cv e ?d) mvs)
            (map (\<lambda>e. getMousePos cv e ?d) mvs)))"
    using assms(1,2) by (intro freehand_moves_preview) (simp_all add: d)
  then have "snd ?m = concat (map (\<lambda>(p, q). previewSegment s p q) (zip ?path (tl ?path)))"
    by (simp only: pos seg) (simp add: recorded_def)
  then have p: "snd ?m =
               (if ctx s then
                  concat (map (\<lambda>(p, q).
                      [Save, Scale (zoom s) (zoom s), Translate (px (pan s)) (py (pan s)),
                       SetStrokeStyle (currentColor s), SetLineWidth (currentSize s),
                       SetGlobalAlpha ?a, BeginPath, MoveTo (px p) (py p), LineTo (px q) (py q),
                       Stroke, Restore])
                    (zip ?path (tl ?path)))
                else [])"
    by (simp add: previewSegment_def)
  have n: "length (zip ?path (tl ?path)) = length mvs"
    by (simp add: recorded_def)
  have r: "drawElement parse now (last (elements ?u)) =
                  Some ([Save, SetStrokeStyle (currentColor s), SetFillStyle ''transparent'',
                         SetLineWidth (if currentSize s = 0 then 2 else currentSize s),
                         SetGlobalAlpha ?a, BeginPath,
                         MoveTo (px (hd ?path)) (py (hd ?path))]
                        @ map (\<lambda>p. LineTo (px p) (py p)) (tl ?path)
                        @ [Stroke, Restore])"
    if "stringify ?path \<noteq> [] \<and> parse (stringify ?path) = Some ?path"
  proof -
    have f: "is_freehand (currentTool ?t)" using assms(1) by (simp only: ts(1))
    have s1: "stringify (currentPath ?t) \<noteq> []" using that by (simp add: ts(2))
    have s2: "parse (stringify (currentPath ?t)) = Some (currentPath ?t)"
      using that by (simp add: ts(2))
    from drawElement_stroke [where parse = parse and stringify = stringify
        and now = now and uuid = uuid, OF f len s1 s2]
    show ?thesis by (simp only: l ts(1,2,4,5))
  qed
  show ?thesis
    unfolding Let_def using e o p n r by blast
qed

text \<open>A highlighter stroke of two points, on a canvas whose context exists.\<close>

theorem stroke_opacity_is_preview_alpha_witness:
  "is_freehand (currentTool (setCurrentTool Highlighter
      ((init_editor (board [] 1 origin))\<lparr> ctx := True \<rparr>)))
   \<and> \<not> isPanning (setCurrentTool Highlighter ((init_editor (board [] 1 origin))\<lparr> ctx := True \<rparr>))
   \<and> [pointer_at 20 20] \<noteq> []
   \<and> (\<lambda>ps :: point list. ''[..]'') (recorded (Some full_canvas) (pointer_at 10 10)
          [pointer_at 20 20]
          (setCurrentTool Highlighter ((init_editor (board [] 1 origin))\<lparr> ctx := True \<rparr>))) \<noteq> []
   \<and> Some [\<lparr> px = 10, py = 10 \<rparr>, \<lparr> px = 20, py = 20 \<rparr>]
       = Some (recorded (Some full_canvas) (pointer_at 10 10) [pointer_at 20 20]
          (setCurrentTool Highlighter ((init_editor (board [] 1 origin))\<lparr> ctx := True \<rparr>)))
   \<and> opacity (style (last (elements (handleMouseUp (\<lambda>ps. ''[..]'') ''id-1''
        (fst (handleMouseMoves (Some full_canvas) [pointer_at 20 20]
          (handleMouseDown (Some full_canvas) (pointer_at 10 10)
            (setCurrentTool Highlighter
              ((init_editor (board [] 1 origin))\<lparr> ctx := True \<rparr>))))))))) = Some 0.5
   \<and> snd (handleMouseMoves (Some full_canvas) [pointer_at 20 20]
        (handleMouseDown (Some full_canvas) (pointer_at 10 10)
          (setCurrentTool Highlighter
            ((init_editor (board [] 1 origin))\<lparr> ctx := True \<rparr>))))
       = [Save, Scale 1 1, Translate 0 0, SetStrokeStyle ''#000000'', SetLineWidth 3,
          SetGlobalAlpha 0.5, BeginPath, MoveTo 10 10, LineTo 20 20, Stroke, Restore]
   \<and> drawElement (\<lambda>c. Some [\<lparr> px = 10, py = 10 \<rparr>, \<lparr> px = 20, py = 20 \<rparr>]) 0
        (last (elements (handleMouseUp (\<lambda>ps. ''[..]'') ''id-1''
          (fst (handleMouseMoves (Some full_canvas) [pointer_at 20 20]
            (handleMouseDown (Some full_canvas) (pointer_at 10 10)
              (setCurrentTool Highlighter
                ((init_editor (board [] 1 origin))\<lparr> ctx := True \<rparr>))))))))
       = Some [Save, SetStrokeStyle ''#000000'', SetFillStyle ''transparent'', SetLineWidth 3,
               SetGlobalAlpha 0.5, BeginPath, MoveTo 10 10, LineTo 20 20, Stroke, Restore]"
proof -
  let ?s = "setCurrentTool Highlighter ((init_editor (board [] 1 origin))\<lparr> ctx := True \<rparr>)"
  let ?t = "handleMouseMoves (Some full_canvas) [pointer_at 20 20]
              (handleMouseDown (Some full_canvas) (pointer_at 10 10) ?s)"
  let ?u = "handleMouseUp (\<lambda>ps. ''[..]'') ''id-1'' (fst ?t)"
  let ?path = "recorded (Some full_canvas) (pointer_at 10 10) [pointer_at 20 20] ?s"
  have s: "currentTool ?s = Highlighter" "\<not> isPanning ?s" "ctx ?s" "zoom ?s = 1"
    "pan ?s = \<lparr> px = 0, py = 0 \<rparr>" "currentColor ?s = ''#000000''" "currentSize ?s = 3"
    by (simp_all add: setCurrentTool_def init_editor_def board_def origin_def)
  have h1: "is_freehand (currentTool ?s)" by (simp add: s is_freehand_def)
  have h3: "[pointer_at 20 20] \<noteq> []" by simp
  have path: "?path = [\<lparr> px = 10, py = 10 \<rparr>, \<lparr> px = 20, py = 20 \<rparr>]"
    by (simp add: recorded_def getMousePos_def s full_canvas_def pointer_at_def Let_def)
  have h4: "(\<lambda>ps :: point list. ''[..]'') ?path \<noteq> []" by simp
  have h5: "Some [\<lparr> px = 10, py = 10 \<rparr>, \<lparr> px = 20, py = 20 \<rparr>] = Some ?path"
    by (simp only: path)
  note c = stroke_opacity_is_preview_alpha [OF h1 s(2) h3, of "Some full_canvas" "pointer_at 10 10"
      "\<lambda>ps. ''[..]''" "''id-1''" "\<lambda>c. Some [\<lparr> px = 10, py = 10 \<rparr>, \<lparr> px = 20, py = 20 \<rparr>]" 0,
      unfolded Let_def]
  have o: "opacity (style (last (elements ?u))) = Some 0.5"
    using c [THEN conjunct2, THEN conjunct1] by (simp only: s) simp
  have a: "snd ?t = [Save, Scale 1 1, Translate 0 0, SetStrokeStyle ''#000000'', SetLineWidth 3,
          SetGlobalAlpha 0.5, BeginPath, MoveTo 10 10, LineTo 20 20, Stroke, Restore]"
    using c [THEN conjunct2, THEN conjunct2, THEN conjunct1] by (simp only: s path) simp
  have r: "drawElement (\<lambda>c. Some [\<lparr> px = 10, py = 10 \<rparr>, \<lparr> px = 20, py = 20 \<rparr>]) 0
        (last (elements ?u))
       = Some [Save, SetStrokeStyle ''#000000'', SetFillStyle ''transparent'', SetLineWidth 3,
               SetGlobalAlpha 0.5, BeginPath, MoveTo 10 10, LineTo 20 20, Stroke, Restore]"
    using c [THEN conjunct2, THEN conjunct2, THEN conjunct2, THEN conjunct2]
    by (simp only: s path) simp
  from h1 s(2) h3 h4 h5 o a r show ?thesis by blast
qed

end
